theory Spec2Isabelle
  imports Complex_Main "HOL-Library.Sublist"
begin

section \<open>Strings\<close>

text \<open>
  Column names and date texts are Python strings. They are modelled as \<^typ>\<open>string\<close>,
  one \<^typ>\<open>char\<close> per code point, which covers the code points below 256 (ASCII and
  Latin-1): enough for every name and token of the source, whose only non-ASCII letter
  is the e with acute accent, code point 233.

  \<open>needle in hay\<close> of Python is \<^term>\<open>sublist needle hay\<close>; \<open>str.lower\<close> maps the
  upper-case letters of that range (A to Z, and 192 to 222 without the multiplication
  sign 215) 32 code points up and leaves every other code point alone.
\<close>

definition e_acute :: char where
  "e_acute = char_of (233::nat)"

definition lower_char :: "char \<Rightarrow> char" where
  "lower_char c =
     (let n = (of_char c :: nat)
      in if (65 \<le> n \<and> n \<le> 90) \<or> (192 \<le> n \<and> n \<le> 222 \<and> n \<noteq> 215)
         then char_of (n + 32) else c)"

definition lower :: "string \<Rightarrow> string" where
  "lower s = map lower_char s"

section \<open>Tables\<close>

text \<open>
  A timestamp is a count of nanoseconds since the epoch, in UTC, or the marker NaT.
  The bounds of the library's 64-bit representation are not modelled.
  A cell of a data frame is a timestamp, a float or the float marker NaN; floats are
  modelled by the reals they denote, so rounding is not modelled.
\<close>

datatype stamp = NaT | TS int

datatype cell = Date stamp | Num real | NaN

fun isna :: "cell \<Rightarrow> bool" where
  "isna (Date NaT) = True"
| "isna NaN = True"
| "isna _ = False"

record table =
  columns :: "string list"
  rows :: "cell list list"

text \<open>Errors raised by the analysis and loading code, named after their messages.\<close>

datatype error =
    NoDataLoaded
  | NoConsumptionData
  | InvalidDateRange
  | KeyError
  | TypeError
  | InvalidFileFormat

text \<open>
  A data frame is rectangular; a cell read beyond the end of a short row is the missing
  value, as it is for a short line of the input file.
\<close>

definition get_cell :: "cell list \<Rightarrow> nat \<Rightarrow> cell" where
  "get_cell r i = (if i < length r then r ! i else NaN)"

fun col_index :: "string list \<Rightarrow> string \<Rightarrow> nat option" where
  "col_index [] c = None"
| "col_index (x # xs) c = (if x = c then Some 0 else map_option Suc (col_index xs c))"

fun is_time :: "cell \<Rightarrow> bool" where
  "is_time (Date (TS n)) = True"
| "is_time _ = False"

fun is_date :: "cell \<Rightarrow> bool" where
  "is_date (Date d) = True"
| "is_date _ = False"

fun is_float :: "cell \<Rightarrow> bool" where
  "is_float (Date d) = False"
| "is_float _ = True"

text \<open>
  The tables the loader produces: the first column is named \<open>date\<close> and holds
  timestamps, the other columns have distinct names and hold floats or NaN.
  The behaviour of the library on frames with duplicated column names is not modelled.
\<close>

definition normalized :: "table \<Rightarrow> bool" where
  "normalized t =
     ((case columns t of
         [] \<Rightarrow> False
       | c # cs \<Rightarrow> c = ''date'' \<and> ''date'' \<notin> set cs \<and> distinct cs) \<and>
      list_all (\<lambda>r. length r = length (columns t) \<and> is_time (hd r) \<and>
                      list_all is_float (tl r)) (rows t))"

section \<open>Column resolution (\<open>DataAnalysis._filter_data_by_date\<close>, first half)\<close>

definition gas_like :: "string \<Rightarrow> bool" where
  "gas_like col = (sublist ''gas'' (lower col) \<or> sublist ''gaz'' (lower col))"

definition elec_like :: "string \<Rightarrow> bool" where
  "elec_like col =
     (sublist ''electr'' (lower col) \<or> sublist (e_acute # ''lectr'') (lower col))"

definition resolve_column :: "table \<Rightarrow> string \<Rightarrow> error + string" where
  "resolve_column t consumption_type =
     (if consumption_type = ''gas'' then
        (if ''gas_consumption'' \<in> set (columns t) then Inr ''gas_consumption''
         else (case filter gas_like (columns t) of
                 c # _ \<Rightarrow> Inr c
               | [] \<Rightarrow> Inl NoConsumptionData))
      else if consumption_type = ''electricity'' then
        (if ''electricity_consumption'' \<in> set (columns t) then Inr ''electricity_consumption''
         else (case filter elec_like (columns t) of
                 c # _ \<Rightarrow> Inr c
               | [] \<Rightarrow> Inl NoConsumptionData))
      else if ''consumption'' \<in> set (columns t) then Inr ''consumption''
      else (case filter (\<lambda>col. col \<noteq> ''date'') (columns t) of
              c # _ \<Rightarrow> Inr c
            | [] \<Rightarrow> Inl NoConsumptionData))"

section \<open>Date ranges (\<open>DataAnalysis._validate_date_range\<close>)\<close>

text \<open>
  The library's parser \<open>pd.to_datetime(text, utc=True)\<close> is a parameter
  \<open>to_datetime\<close>: \<open>None\<close> when it raises, \<open>Some NaT\<close> for a text it maps to
  the not-a-time marker, \<open>Some (TS n)\<close> for a text it reads as a time.
  Adding a time difference to NaT gives NaT, and every comparison with NaT is false.
\<close>

definition second_ns :: int where
  "second_ns = 1000000000"

definition day_ns :: int where
  "day_ns = 86400 * second_ns"

fun shift :: "stamp \<Rightarrow> int \<Rightarrow> stamp" where
  "shift NaT d = NaT"
| "shift (TS n) d = TS (n + d)"

fun stamp_gt :: "stamp \<Rightarrow> stamp \<Rightarrow> bool" where
  "stamp_gt (TS a) (TS b) = (a > b)"
| "stamp_gt _ _ = False"

fun stamp_ge :: "stamp \<Rightarrow> stamp \<Rightarrow> bool" where
  "stamp_ge (TS a) (TS b) = (a \<ge> b)"
| "stamp_ge _ _ = False"

definition validate_date_range ::
  "(string \<Rightarrow> stamp option) \<Rightarrow> string \<Rightarrow> string \<Rightarrow> error + stamp \<times> stamp" where
  "validate_date_range to_datetime start_date end_date =
     (case to_datetime start_date of
        None \<Rightarrow> Inl InvalidDateRange
      | Some start \<Rightarrow>
          (case to_datetime end_date of
             None \<Rightarrow> Inl InvalidDateRange
           | Some end0 \<Rightarrow>
               (let end = shift (shift end0 day_ns) (- second_ns)
                in if stamp_gt start end then Inl InvalidDateRange
                   else Inr (start, end))))"

section \<open>Row filtering (\<open>DataAnalysis._filter_data_by_date\<close>, second half)\<close>

fun date_of :: "cell \<Rightarrow> stamp" where
  "date_of (Date d) = d"
| "date_of _ = NaT"

definition in_range :: "stamp \<Rightarrow> stamp \<Rightarrow> cell \<Rightarrow> bool" where
  "in_range start_date end_date c =
     (stamp_ge (date_of c) start_date \<and> stamp_ge end_date (date_of c))"

text \<open>
  Comparing a column that holds floats with a timestamp raises a type error in the
  library.
\<close>

definition filter_data_by_date ::
  "table option \<Rightarrow> stamp \<Rightarrow> stamp \<Rightarrow> string \<Rightarrow> error + table \<times> string" where
  "filter_data_by_date data start_date end_date consumption_type =
     (case data of
        None \<Rightarrow> Inl NoDataLoaded
      | Some t \<Rightarrow>
          (case resolve_column t consumption_type of
             Inl e \<Rightarrow> Inl e
           | Inr column \<Rightarrow>
               (case col_index (columns t) ''date'' of
                  None \<Rightarrow> Inl KeyError
                | Some i \<Rightarrow>
                    if list_ex (\<lambda>r. \<not> is_date (get_cell r i)) (rows t) then Inl TypeError
                    else Inr (t\<lparr>rows :=
                                 filter (\<lambda>r. in_range start_date end_date (get_cell r i))
                                   (rows t)\<rparr>, column))))"

section \<open>Aggregates\<close>

text \<open>
  \<open>Series.idxmin\<close> skips missing values and gives the label of the first row that
  holds the minimum; on a column with no value it gives NaN or raises, depending on the
  version of the library, and the lookup of the label NaN raises: both ways the caller's
  handler runs. Row labels are unique in a loaded table, so the label stands for the row.
\<close>

definition values_of :: "cell list \<Rightarrow> real list" where
  "values_of cs = concat (map (\<lambda>c. case c of Num x \<Rightarrow> [x] | _ \<Rightarrow> []) cs)"

definition idxmin :: "nat \<Rightarrow> cell list list \<Rightarrow> cell list option" where
  "idxmin j rs =
     (case values_of (map (\<lambda>r. get_cell r j) rs) of
        [] \<Rightarrow> None
      | v # vs \<Rightarrow> List.find (\<lambda>r. get_cell r j = Num (Min (set (v # vs)))) rs)"

definition idxmax :: "nat \<Rightarrow> cell list list \<Rightarrow> cell list option" where
  "idxmax j rs =
     (case values_of (map (\<lambda>r. get_cell r j) rs) of
        [] \<Rightarrow> None
      | v # vs \<Rightarrow> List.find (\<lambda>r. get_cell r j = Num (Max (set (v # vs)))) rs)"

definition get_minimum ::
  "(string \<Rightarrow> stamp option) \<Rightarrow> table option \<Rightarrow> string \<Rightarrow> string \<Rightarrow> string
     \<Rightarrow> (cell \<times> cell) option" where
  "get_minimum to_datetime data start_date end_date consumption_type =
     (case validate_date_range to_datetime start_date end_date of
        Inl e \<Rightarrow> None
      | Inr (start, end) \<Rightarrow>
          (case filter_data_by_date data start end consumption_type of
             Inl e \<Rightarrow> None
           | Inr (filtered, column) \<Rightarrow>
               if rows filtered = [] then None
               else (case col_index (columns filtered) column of
                       None \<Rightarrow> None
                     | Some j \<Rightarrow>
                         (case idxmin j (rows filtered) of
                            None \<Rightarrow> None
                          | Some r \<Rightarrow> Some (get_cell r j, get_cell r 0)))))"

definition get_maximum ::
  "(string \<Rightarrow> stamp option) \<Rightarrow> table option \<Rightarrow> string \<Rightarrow> string \<Rightarrow> string
     \<Rightarrow> (cell \<times> cell) option" where
  "get_maximum to_datetime data start_date end_date consumption_type =
     (case validate_date_range to_datetime start_date end_date of
        Inl e \<Rightarrow> None
      | Inr (start, end) \<Rightarrow>
          (case filter_data_by_date data start end consumption_type of
             Inl e \<Rightarrow> None
           | Inr (filtered, column) \<Rightarrow>
               if rows filtered = [] then None
               else (case col_index (columns filtered) column of
                       None \<Rightarrow> None
                     | Some j \<Rightarrow>
                         (case idxmax j (rows filtered) of
                            None \<Rightarrow> None
                          | Some r \<Rightarrow> Some (get_cell r j, get_cell r 0)))))"

text \<open>\<open>Series.mean\<close> skips missing values and is NaN when no value is left.\<close>

definition mean :: "cell list \<Rightarrow> cell" where
  "mean cs =
     (case values_of cs of
        [] \<Rightarrow> NaN
      | v # vs \<Rightarrow> Num (sum_list (v # vs) / real (length (v # vs))))"

definition get_average ::
  "(string \<Rightarrow> stamp option) \<Rightarrow> table option \<Rightarrow> string \<Rightarrow> string \<Rightarrow> string
     \<Rightarrow> cell option" where
  "get_average to_datetime data start_date end_date consumption_type =
     (case validate_date_range to_datetime start_date end_date of
        Inl e \<Rightarrow> None
      | Inr (start, end) \<Rightarrow>
          (case filter_data_by_date data start end consumption_type of
             Inl e \<Rightarrow> None
           | Inr (filtered, column) \<Rightarrow>
               if rows filtered = [] then None
               else (case col_index (columns filtered) column of
                       None \<Rightarrow> None
                     | Some j \<Rightarrow> Some (mean (map (\<lambda>r. get_cell r j) (rows filtered))))))"

text \<open>A comparison of a missing value with the threshold is false.\<close>

fun cell_gt :: "cell \<Rightarrow> real \<Rightarrow> bool" where
  "cell_gt (Num x) th = (x > th)"
| "cell_gt _ th = False"

fun cell_lt :: "cell \<Rightarrow> real \<Rightarrow> bool" where
  "cell_lt (Num x) th = (x < th)"
| "cell_lt _ th = False"

definition count_days_above_threshold ::
  "(string \<Rightarrow> stamp option) \<Rightarrow> table option \<Rightarrow> string \<Rightarrow> string \<Rightarrow> real \<Rightarrow> string
     \<Rightarrow> nat option" where
  "count_days_above_threshold to_datetime data start_date end_date threshold consumption_type =
     (case validate_date_range to_datetime start_date end_date of
        Inl e \<Rightarrow> None
      | Inr (start, end) \<Rightarrow>
          (case filter_data_by_date data start end consumption_type of
             Inl e \<Rightarrow> None
           | Inr (filtered, column) \<Rightarrow>
               if rows filtered = [] then None
               else (case col_index (columns filtered) column of
                       None \<Rightarrow> None
                     | Some j \<Rightarrow>
                         Some (length (filter (\<lambda>r. cell_gt (get_cell r j) threshold)
                                         (rows filtered))))))"

definition count_days_below_threshold ::
  "(string \<Rightarrow> stamp option) \<Rightarrow> table option \<Rightarrow> string \<Rightarrow> string \<Rightarrow> real \<Rightarrow> string
     \<Rightarrow> nat option" where
  "count_days_below_threshold to_datetime data start_date end_date threshold consumption_type =
     (case validate_date_range to_datetime start_date end_date of
        Inl e \<Rightarrow> None
      | Inr (start, end) \<Rightarrow>
          (case filter_data_by_date data start end consumption_type of
             Inl e \<Rightarrow> None
           | Inr (filtered, column) \<Rightarrow>
               if rows filtered = [] then None
               else (case col_index (columns filtered) column of
                       None \<Rightarrow> None
                     | Some j \<Rightarrow>
                         Some (length (filter (\<lambda>r. cell_lt (get_cell r j) threshold)
                                         (rows filtered))))))"

section \<open>Extraction (\<open>DataAnalysis.get_data_for_period\<close>)\<close>

definition dropna :: "nat \<Rightarrow> cell list list \<Rightarrow> cell list list" where
  "dropna j rs = filter (\<lambda>r. \<not> isna (get_cell r j)) rs"

text \<open>\<open>frame[[first, column]]\<close>: the two named columns, in that order.\<close>

definition select2 :: "string \<Rightarrow> nat \<Rightarrow> string \<Rightarrow> nat \<Rightarrow> cell list list \<Rightarrow> table" where
  "select2 c0 i0 c j rs =
     \<lparr>columns = [c0, c], rows = map (\<lambda>r. [get_cell r i0, get_cell r j]) rs\<rparr>"

definition get_data_for_period ::
  "(string \<Rightarrow> stamp option) \<Rightarrow> table option \<Rightarrow> string \<Rightarrow> string \<Rightarrow> string
     \<Rightarrow> table option" where
  "get_data_for_period to_datetime data start_date end_date consumption_type =
     (case validate_date_range to_datetime start_date end_date of
        Inl e \<Rightarrow> None
      | Inr (start, end) \<Rightarrow>
          (case filter_data_by_date data start end consumption_type of
             Inl e \<Rightarrow> None
           | Inr (filtered, column) \<Rightarrow>
               if rows filtered = [] then None
               else (case col_index (columns filtered) column of
                       None \<Rightarrow> None
                     | Some j \<Rightarrow>
                         (let non_empty_data = dropna j (rows filtered)
                          in if non_empty_data = [] then
                               (if consumption_type = ''electricity'' then
                                  (case filter_data_by_date data start end ''gas'' of
                                     Inl e \<Rightarrow> None
                                   | Inr (u, gas_column) \<Rightarrow>
                                       (case col_index (columns filtered) gas_column of
                                          None \<Rightarrow> None
                                        | Some g \<Rightarrow>
                                            (let non_empty_gas = dropna g (rows filtered)
                                             in if non_empty_gas \<noteq> [] then
                                                  Some (select2 (hd (columns filtered)) 0
                                                          gas_column g non_empty_gas)
                                                else None)))
                                else None)
                             else Some (select2 (hd (columns filtered)) 0 column j
                                          non_empty_data)))))"

section \<open>The resolution order as the specification words it\<close>

text \<open>
  The specification gives one order for both kinds: the canonical name, then the first
  column whose lower-cased name holds a token of the kind, then a column named
  \<open>consumption\<close>, then the first column that is not the date column.
  \<open>spec_resolve_column\<close> follows these words; \<open>resolve_column\<close> above follows the
  source.
\<close>

definition canonical :: "string \<Rightarrow> string" where
  "canonical kind = kind @ ''_consumption''"

definition kind_like :: "string \<Rightarrow> string \<Rightarrow> bool" where
  "kind_like kind col = (if kind = ''gas'' then gas_like col else elec_like col)"

definition spec_resolve_column :: "table \<Rightarrow> string \<Rightarrow> error + string" where
  "spec_resolve_column t kind =
     (if canonical kind \<in> set (columns t) then Inr (canonical kind)
      else (case filter (kind_like kind) (columns t) of
              c # _ \<Rightarrow> Inr c
            | [] \<Rightarrow>
                if ''consumption'' \<in> set (columns t) then Inr ''consumption''
                else (case filter (\<lambda>col. col \<noteq> ''date'') (columns t) of
                        c # _ \<Rightarrow> Inr c
                      | [] \<Rightarrow> Inl NoConsumptionData)))"

section \<open>Notions used to state the properties\<close>

text \<open>
  The rows of a normalized table whose date lies in the closed interval of a range; the
  shape of a minimum or maximum result; the two-column table of the rows that have a value
  in a column.
\<close>

definition rows_in_range :: "table \<Rightarrow> stamp \<Rightarrow> stamp \<Rightarrow> cell list list" where
  "rows_in_range t a b = filter (\<lambda>r. in_range a b (hd r)) (rows t)"

definition first_extreme ::
  "(real \<Rightarrow> real \<Rightarrow> bool) \<Rightarrow> nat \<Rightarrow> cell list list \<Rightarrow> (cell \<times> cell) option \<Rightarrow> bool" where
  "first_extreme le j rs res =
     (case res of
        None \<Rightarrow> list_all (\<lambda>r. isna (get_cell r j)) rs
      | Some (v, d) \<Rightarrow>
          (\<exists>i<length rs. \<exists>x. v = Num x \<and> get_cell (rs ! i) j = Num x \<and> d = hd (rs ! i) \<and>
             (\<forall>k<length rs. \<forall>y. get_cell (rs ! k) j = Num y \<longrightarrow> le x y) \<and>
             (\<forall>k<i. get_cell (rs ! k) j \<noteq> Num x)))"

definition subtable :: "string \<Rightarrow> nat \<Rightarrow> cell list list \<Rightarrow> table" where
  "subtable col j rs =
     \<lparr>columns = [''date'', col],
      rows = map (\<lambda>r. [hd r, get_cell r j]) (filter (\<lambda>r. \<not> isna (get_cell r j)) rs)\<rparr>"

section \<open>A parser instance\<close>

text \<open>
  An instance of the library's parser for the examples: it is exact on the empty text,
  which the library maps to NaT without raising, and on texts of the documented form
  \<open>YYYY-MM-DD\<close>, which it reads as midnight UTC of that day (days counted from
  1970-01-01 in the proleptic Gregorian calendar). Every other text is rejected here,
  although the library accepts other date formats; the general properties below are
  stated for an arbitrary parser and do not depend on this instance.
\<close>

definition digit :: "char \<Rightarrow> nat option" where
  "digit c =
     (let n = (of_char c :: nat)
      in if 48 \<le> n \<and> n \<le> 57 then Some (n - 48) else None)"

fun digits :: "nat \<Rightarrow> string \<Rightarrow> nat option" where
  "digits acc [] = Some acc"
| "digits acc (c # cs) =
     (case digit c of None \<Rightarrow> None | Some d \<Rightarrow> digits (10 * acc + d) cs)"

definition is_leap :: "nat \<Rightarrow> bool" where
  "is_leap y = (y mod 4 = 0 \<and> (y mod 100 \<noteq> 0 \<or> y mod 400 = 0))"

definition days_in_month :: "nat \<Rightarrow> nat \<Rightarrow> nat" where
  "days_in_month y m =
     (if m = 2 then (if is_leap y then 29 else 28)
      else if m = 4 \<or> m = 6 \<or> m = 9 \<or> m = 11 then 30 else 31)"

definition days_from_civil :: "int \<Rightarrow> int \<Rightarrow> int \<Rightarrow> int" where
  "days_from_civil y m d =
     (let y' = (if m \<le> 2 then y - 1 else y);
          era = y' div 400;
          yoe = y' - era * 400;
          doy = (153 * (if m > 2 then m - 3 else m + 9) + 2) div 5 + d - 1;
          doe = yoe * 365 + yoe div 4 - yoe div 100 + doy
      in era * 146097 + doe - 719468)"

definition iso_to_datetime :: "string \<Rightarrow> stamp option" where
  "iso_to_datetime s =
     (if s = [] then Some NaT
      else if length s = 10 \<and> s ! 4 = CHR ''-'' \<and> s ! 7 = CHR ''-'' then
        (case (digits 0 (take 4 s), digits 0 (take 2 (drop 5 s)), digits 0 (drop 8 s)) of
           (Some y, Some m, Some d) \<Rightarrow>
             if 1 \<le> m \<and> m \<le> 12 \<and> 1 \<le> d \<and> d \<le> days_in_month y m
             then Some (TS (days_from_civil (int y) (int m) (int d) * day_ns))
             else None
         | _ \<Rightarrow> None)
      else None)"

text \<open>
  The example table: electricity 10, 5, 20 on the first three days of December 2024, and
  a fourth row on 10 December with a gas value only.
\<close>

definition day :: "int \<Rightarrow> stamp" where
  "day n = TS (n * day_ns)"

definition sample :: table where
  "sample =
     \<lparr>columns = [''date'', ''electricity_consumption'', ''gas_consumption''],
      rows = [[Date (day 20058), Num 10, NaN],
              [Date (day 20059), Num 5, Num 3],
              [Date (day 20060), Num 20, NaN],
              [Date (day 20067), NaN, Num 4]]\<rparr>"

section \<open>Loading (\<open>DataLoader._load_csv\<close>)\<close>

text \<open>
  The model starts from the frame that \<open>pd.read_csv\<close> returns: the column names, for
  each column whether its type is a number type, and the rows of cells (absent, a text,
  or a number). The names of such a frame are distinct.

  The functions of the library that the loader calls are parameters, collected in a record:
  whether the parse of one cell as a date returns (\<open>scalar_to_datetime\<close>), the text of
  a cell (\<open>astype_str\<close>), whether the lenient parse of a list of samples returns
  (\<open>samples_to_datetime\<close>), the strict and the lenient parse of a whole column with
  \<open>utc=True\<close> (\<open>None\<close> when it raises), and the coercion of one cell to a float
  (\<open>None\<close> when the cell is not numeric). The parses of a column return one stamp per
  cell.
\<close>

datatype raw = Null | Text string | Number real

record frame =
  df_columns :: "string list"
  df_numeric :: "bool list"
  df_rows :: "raw list list"

record pandas =
  scalar_to_datetime :: "raw \<Rightarrow> bool"
  astype_str :: "raw \<Rightarrow> string"
  samples_to_datetime :: "string list \<Rightarrow> bool"
  column_to_datetime :: "raw list \<Rightarrow> stamp list option"
  column_to_datetime_coerce :: "raw list \<Rightarrow> stamp list option"
  to_numeric :: "raw \<Rightarrow> real option"

definition raw_at :: "raw list \<Rightarrow> nat \<Rightarrow> raw" where
  "raw_at r i = (if i < length r then r ! i else Null)"

definition raw_cell :: "frame \<Rightarrow> string \<Rightarrow> raw list \<Rightarrow> raw" where
  "raw_cell df c r = (case col_index (df_columns df) c of None \<Rightarrow> Null | Some i \<Rightarrow> raw_at r i)"

definition column_cells :: "frame \<Rightarrow> string \<Rightarrow> raw list" where
  "column_cells df c = map (raw_cell df c) (df_rows df)"

text \<open>
  Lines 181 to 242: the date column by name, then by the first cell of the first column,
  then by a scan for a column whose samples hold a dash or a slash; the consumption
  columns by name, and from the number-typed columns when no name matches.
\<close>

definition date_patterns :: "string list" where
  "date_patterns =
     [''date'', ''Date'', ''temps'', ''Temps'', ''time'', ''Time'',
      ''p'' @ e_acute # ''riode'', ''P'' @ e_acute # ''riode'']"

definition elec_patterns :: "string list" where
  "elec_patterns =
     [e_acute # ''lectricit'' @ [e_acute], ''electricite'', e_acute # ''lectr'', ''electr'',
      ''RTE'']"

definition gas_patterns :: "string list" where
  "gas_patterns = [''gaz'', ''gas'', ''GRTgaz'', ''Ter'' @ e_acute # ''ga'']"

fun first_match ::
  "(string \<Rightarrow> string \<Rightarrow> bool) \<Rightarrow> string list \<Rightarrow> string list \<Rightarrow> string option" where
  "first_match m [] cols = None"
| "first_match m (pattern # patterns) cols =
     (case filter (m pattern) cols of
        c # _ \<Rightarrow> Some c
      | [] \<Rightarrow> first_match m patterns cols)"

definition name_has :: "string \<Rightarrow> string \<Rightarrow> bool" where
  "name_has pattern col = sublist pattern col"

definition name_has_ci :: "string \<Rightarrow> string \<Rightarrow> bool" where
  "name_has_ci pattern col = sublist (lower pattern) (lower col)"

definition has_separator :: "string list \<Rightarrow> bool" where
  "has_separator samples =
     (list_ex (\<lambda>x. CHR ''-'' \<in> set x) samples \<or> list_ex (\<lambda>x. CHR ''/'' \<in> set x) samples)"

fun scan_for_date :: "pandas \<Rightarrow> frame \<Rightarrow> string list \<Rightarrow> string option" where
  "scan_for_date lib df [] = None"
| "scan_for_date lib df (col # cols) =
     (let samples = map (astype_str lib) (take 5 (filter (\<lambda>c. c \<noteq> Null) (column_cells df col)))
      in if has_separator samples \<and> samples_to_datetime lib samples then Some col
         else scan_for_date lib df cols)"

definition find_date_col :: "pandas \<Rightarrow> frame \<Rightarrow> string option" where
  "find_date_col lib df =
     (case first_match name_has date_patterns (df_columns df) of
        Some c \<Rightarrow> Some c
      | None \<Rightarrow>
          (case (case df_rows df of
                   [] \<Rightarrow> None
                 | r # _ \<Rightarrow> if scalar_to_datetime lib (raw_at r 0)
                            then Some (hd (df_columns df)) else None) of
             Some c \<Rightarrow> Some c
           | None \<Rightarrow> scan_for_date lib df (df_columns df)))"

definition numeric_cols :: "frame \<Rightarrow> string list" where
  "numeric_cols df = map fst (filter snd (zip (df_columns df) (df_numeric df)))"

definition consumption_columns :: "frame \<Rightarrow> string option \<times> string option" where
  "consumption_columns df =
     (let elec_col = first_match name_has_ci elec_patterns (df_columns df);
          gas_col = first_match name_has_ci gas_patterns (df_columns df)
      in if elec_col = None \<and> gas_col = None then
           (case numeric_cols df of
              [] \<Rightarrow> (None, None)
            | [a] \<Rightarrow> (Some a, None)
            | a # b # _ \<Rightarrow> (Some a, Some b))
         else (elec_col, gas_col))"

text \<open>
  Lines 244 to 299. The mapping is a dictionary filled for the date, then the electricity,
  then the gas column, so a later entry replaces an earlier one with the same key. When no
  column is named \<open>date\<close> after the renaming, the lookup of that column raises in both
  parsing attempts; when two of the other columns have the same name, the selection by
  that name is a frame and the numeric coercion raises. Every failure leaves the function
  as the error for an invalid file format.
\<close>

fun if_truthy :: "string option \<Rightarrow> string list" where
  "if_truthy None = []"
| "if_truthy (Some c) = (if c = [] then [] else [c])"

definition columns_to_keep :: "frame \<Rightarrow> string \<Rightarrow> string option \<Rightarrow> string option \<Rightarrow> string list" where
  "columns_to_keep df date_col elec_col gas_col =
     filter (\<lambda>col. col \<in> set (df_columns df))
       ([date_col] @ if_truthy elec_col @ if_truthy gas_col)"

definition column_mapping :: "string \<Rightarrow> string option \<Rightarrow> string option \<Rightarrow> string \<Rightarrow> string" where
  "column_mapping date_col elec_col gas_col col =
     (if col \<in> set (if_truthy gas_col) then ''gas_consumption''
      else if col \<in> set (if_truthy elec_col) then ''electricity_consumption''
      else if col = date_col then ''date''
      else col)"

definition date_stamps :: "pandas \<Rightarrow> raw list \<Rightarrow> stamp list option" where
  "date_stamps lib cells =
     (case column_to_datetime lib cells of
        Some ds \<Rightarrow> Some ds
      | None \<Rightarrow> column_to_datetime_coerce lib cells)"

definition keep_row :: "frame \<Rightarrow> raw list \<times> stamp \<Rightarrow> bool" where
  "keep_row df p =
     (snd p \<noteq> NaT \<and>
      (''flag_ignore'' \<in> set (df_columns df) \<longrightarrow>
         raw_cell df ''flag_ignore'' (fst p) \<noteq> Text ''oui''))"

definition numeric_cell :: "pandas \<Rightarrow> raw \<Rightarrow> cell" where
  "numeric_cell lib x = (case to_numeric lib x of None \<Rightarrow> NaN | Some v \<Rightarrow> Num v)"

definition normalize_row :: "pandas \<Rightarrow> frame \<Rightarrow> string list \<Rightarrow> raw list \<times> stamp \<Rightarrow> cell list" where
  "normalize_row lib df cols p =
     Date (snd p) # map (\<lambda>c. numeric_cell lib (raw_cell df c (fst p))) cols"

definition normalize_frame ::
  "pandas \<Rightarrow> frame \<Rightarrow> string \<Rightarrow> string option \<Rightarrow> string option \<Rightarrow> error + table" where
  "normalize_frame lib df date_col elec_col gas_col =
     (let keep = columns_to_keep df date_col elec_col gas_col;
          new_columns = map (column_mapping date_col elec_col gas_col) keep
      in if length keep < 2 then Inl InvalidFileFormat
         else if ''date'' \<notin> set new_columns then Inl InvalidFileFormat
         else
           (case date_stamps lib (column_cells df date_col) of
              None \<Rightarrow> Inl InvalidFileFormat
            | Some dates \<Rightarrow>
                if \<not> distinct (tl new_columns) then Inl InvalidFileFormat
                else Inr \<lparr>columns = new_columns,
                          rows = map (normalize_row lib df (tl keep))
                                   (filter (keep_row df) (zip (df_rows df) dates))\<rparr>))"

definition load_csv :: "pandas \<Rightarrow> frame \<Rightarrow> error + table" where
  "load_csv lib df =
     (if length (df_columns df) < 2 then Inl InvalidFileFormat
      else
        (case find_date_col lib df of
           None \<Rightarrow> Inl InvalidFileFormat
         | Some date_col \<Rightarrow>
             normalize_frame lib df date_col
               (fst (consumption_columns df)) (snd (consumption_columns df))))"

text \<open>
  Instances for the examples: a library whose date parser is the parser instance above,
  a frame with French headers, and a frame whose date column holds numbers.
\<close>

definition iso_cell :: "raw \<Rightarrow> stamp option" where
  "iso_cell x = (case x of Null \<Rightarrow> Some NaT | Text s \<Rightarrow> iso_to_datetime s | Number v \<Rightarrow> None)"

definition iso_pandas :: pandas where
  "iso_pandas =
     \<lparr>scalar_to_datetime = (\<lambda>x. iso_cell x \<noteq> None),
      astype_str = (\<lambda>x. case x of Text s \<Rightarrow> s | _ \<Rightarrow> []),
      samples_to_datetime = (\<lambda>samples. True),
      column_to_datetime =
        (\<lambda>cells. if list_all (\<lambda>x. iso_cell x \<noteq> None) cells
                  then Some (map (\<lambda>x. case iso_cell x of Some d \<Rightarrow> d | None \<Rightarrow> NaT) cells)
                  else None),
      column_to_datetime_coerce =
        (\<lambda>cells. Some (map (\<lambda>x. case iso_cell x of Some d \<Rightarrow> d | None \<Rightarrow> NaT) cells)),
      to_numeric = (\<lambda>x. case x of Number v \<Rightarrow> Some v | _ \<Rightarrow> None)\<rparr>"

definition raw_sample :: frame where
  "raw_sample =
     \<lparr>df_columns = [''Date'', ''Consommation gaz (MWh)'', ''Note'',
                    ''Consommation '' @ e_acute # ''lectricit'' @ e_acute # '' (MWh)''],
      df_numeric = [False, True, False, False],
      df_rows = [[Text ''2024-12-01'', Null, Text ''a'', Number 10],
                 [Text ''2024-12-02'', Number 3, Text ''b'', Number 5],
                 [Text ''someday'', Number 1, Text ''c'', Number 7],
                 [Text ''2024-12-03'', Null, Text ''d'', Number 20],
                 [Text ''2024-12-10'', Number 4, Text ''e'', Text ''n/a'']]\<rparr>"

definition numeric_date_sample :: frame where
  "numeric_date_sample =
     \<lparr>df_columns = [''date'', ''value''],
      df_numeric = [True, True],
      df_rows = [[Number 20241201, Number 5]]\<rparr>"

text \<open>
  The fallback on number-typed columns as the specification words it, with the date
  column left out of the candidates; a raw row marked to be ignored; and a table whose
  first column is not the date column.
\<close>

definition spec_numeric_candidates :: "frame \<Rightarrow> string \<Rightarrow> string list" where
  "spec_numeric_candidates df date_col = filter (\<lambda>c. c \<noteq> date_col) (numeric_cols df)"

definition spec_numeric_fallback :: "frame \<Rightarrow> string \<Rightarrow> string option \<times> string option" where
  "spec_numeric_fallback df date_col =
     (case spec_numeric_candidates df date_col of
        [] \<Rightarrow> (None, None)
      | [a] \<Rightarrow> (Some a, None)
      | a # b # _ \<Rightarrow> (Some a, Some b))"

definition flagged :: "frame \<Rightarrow> raw list \<Rightarrow> bool" where
  "flagged df r =
     (''flag_ignore'' \<in> set (df_columns df) \<and> raw_cell df ''flag_ignore'' r = Text ''oui'')"

definition swapped_sample :: table where
  "swapped_sample =
     \<lparr>columns = [''electricity_consumption'', ''date''],
      rows = [[Num 10, Date (day 20058)], [Num 5, Date (day 20059)]]\<rparr>"

section \<open>Properties of column resolution\<close>

lemma resolve_column_gas_electricity:
  assumes "kind = ''gas'' \<or> kind = ''electricity''"
  shows "resolve_column t kind =
           (if canonical kind \<in> set (columns t) then Inr (canonical kind)
            else (case filter (kind_like kind) (columns t) of
                    c # _ \<Rightarrow> Inr c
                  | [] \<Rightarrow> Inl NoConsumptionData))"
proof -
  have g: "kind_like ''gas'' = gas_like"
    by (rule ext) (simp add: kind_like_def)
  have e: "kind_like ''electricity'' = elec_like"
    by (rule ext) (simp add: kind_like_def)
  from assms show ?thesis
  proof
    assume "kind = ''gas''"
    then show ?thesis by (simp add: resolve_column_def canonical_def g)
  next
    assume "kind = ''electricity''"
    then show ?thesis by (simp add: resolve_column_def canonical_def e)
  qed
qed

lemma filter_first:
  "(\<exists>ys. filter P xs = c # ys) \<longleftrightarrow>
     (\<exists>pre post. xs = pre @ c # post \<and> P c \<and> (\<forall>p\<in>set pre. \<not> P p))"
  by (auto simp: filter_eq_Cons_iff)

text \<open>
  C1, amended. For the kinds \<open>gas\<close> and \<open>electricity\<close> the column is the canonical
  name when the table has it; otherwise the first column, in table order, whose
  lower-cased name holds a token of the kind; and resolution fails, with the error
  for missing consumption data, exactly when neither exists. A column named
  \<open>consumption\<close> and the first non-date column play no part for these two kinds.
\<close>

theorem resolve_column_kinds:
  assumes "kind = ''gas'' \<or> kind = ''electricity''"
  shows "(canonical kind \<in> set (columns t) \<longrightarrow>
            resolve_column t kind = Inr (canonical kind)) \<and>
         (canonical kind \<notin> set (columns t) \<longrightarrow>
            (\<forall>c. resolve_column t kind = Inr c \<longleftrightarrow>
                 (\<exists>pre post. columns t = pre @ c # post \<and> kind_like kind c \<and>
                    (\<forall>p\<in>set pre. \<not> kind_like kind p)))) \<and>
         (\<forall>e. resolve_column t kind = Inl e \<longleftrightarrow>
              e = NoConsumptionData \<and> canonical kind \<notin> set (columns t) \<and>
              (\<forall>c\<in>set (columns t). \<not> kind_like kind c))"
proof -
  let ?P = "kind_like kind"
  have r: "resolve_column t kind =
           (if canonical kind \<in> set (columns t) then Inr (canonical kind)
            else (case filter ?P (columns t) of
                    c # _ \<Rightarrow> Inr c
                  | [] \<Rightarrow> Inl NoConsumptionData))"
    using assms by (rule resolve_column_gas_electricity)
  have a: "canonical kind \<in> set (columns t) \<longrightarrow> resolve_column t kind = Inr (canonical kind)"
    by (simp add: r)
  have b: "canonical kind \<notin> set (columns t) \<longrightarrow>
            (\<forall>c. resolve_column t kind = Inr c \<longleftrightarrow>
                 (\<exists>pre post. columns t = pre @ c # post \<and> ?P c \<and>
                    (\<forall>p\<in>set pre. \<not> ?P p)))"
  proof (intro impI allI)
    fix c
    assume n: "canonical kind \<notin> set (columns t)"
    have "resolve_column t kind = Inr c \<longleftrightarrow> (\<exists>ys. filter ?P (columns t) = c # ys)"
      using n by (simp add: r split: list.splits)
    then show "resolve_column t kind = Inr c \<longleftrightarrow>
                 (\<exists>pre post. columns t = pre @ c # post \<and> ?P c \<and>
                    (\<forall>p\<in>set pre. \<not> ?P p))"
      by (simp only: filter_first)
  qed
  have c: "\<forall>e. resolve_column t kind = Inl e \<longleftrightarrow>
              e = NoConsumptionData \<and> canonical kind \<notin> set (columns t) \<and>
              (\<forall>c\<in>set (columns t). \<not> ?P c)"
  proof (cases "filter ?P (columns t)")
    case Nil
    then have "\<forall>c\<in>set (columns t). \<not> ?P c"
      by (simp add: filter_empty_conv)
    with Nil show ?thesis by (auto simp: r)
  next
    case (Cons x xs)
    then have "x \<in> set (filter ?P (columns t))" by simp
    then have "\<exists>c\<in>set (columns t). ?P c" by auto
    with Cons show ?thesis by (auto simp: r)
  qed
  from a b c show ?thesis by blast
qed

theorem resolve_column_kinds_witness:
  "resolve_column \<lparr>columns = [''date'', ''Total'', ''Conso GAZ''], rows = []\<rparr> ''gas''
     = Inr ''Conso GAZ'' \<and>
   (\<forall>e. resolve_column \<lparr>columns = [''date'', ''consumption''], rows = []\<rparr> ''gas'' = Inl e
      \<longleftrightarrow> e = NoConsumptionData)"
proof -
  let ?t = "\<lparr>columns = [''date'', ''Total'', ''Conso GAZ''], rows = []\<rparr>"
  let ?u = "\<lparr>columns = [''date'', ''consumption''], rows = []\<rparr>"
  have k: "''gas'' = ''gas'' \<or> ''gas'' = ''electricity''" by simp
  have n: "canonical ''gas'' \<notin> set (columns ?t)" by code_simp
  have g: "kind_like ''gas'' ''Conso GAZ''" by code_simp
  have d: "\<forall>p\<in>set [''date'', ''Total'']. \<not> kind_like ''gas'' p" by code_simp
  have s: "columns ?t = [''date'', ''Total''] @ ''Conso GAZ'' # []" by simp
  have 1: "resolve_column ?t ''gas'' = Inr ''Conso GAZ''"
    using resolve_column_kinds [OF k, of ?t] n g d s by blast
  have m: "canonical ''gas'' \<notin> set (columns ?u)" by code_simp
  have f: "\<forall>c\<in>set (columns ?u). \<not> kind_like ''gas'' c" by code_simp
  have 2: "\<forall>e. resolve_column ?u ''gas'' = Inl e \<longleftrightarrow> e = NoConsumptionData"
    using resolve_column_kinds [OF k, of ?u] m f by blast
  from 1 2 show ?thesis by blast
qed

text \<open>
  C1 as stated fails on a table with a date and a gas column only: the stated order
  ends at the first non-date column, the source raises.
\<close>

theorem resolve_column_order_counterexample:
  "resolve_column \<lparr>columns = [''date'', ''gas_consumption''], rows = []\<rparr> ''electricity''
     = Inl NoConsumptionData \<and>
   spec_resolve_column \<lparr>columns = [''date'', ''gas_consumption''], rows = []\<rparr> ''electricity''
     = Inr ''gas_consumption''"
  by code_simp

section \<open>Normalized tables\<close>

lemma normalized_columns:
  assumes "normalized t"
  obtains cs where "columns t = ''date'' # cs" "''date'' \<notin> set cs" "distinct cs"
  using assms by (auto simp: normalized_def split: list.splits)

lemma normalized_date_index:
  "normalized t \<Longrightarrow> col_index (columns t) ''date'' = Some 0"
  by (erule normalized_columns) simp

lemma normalized_row:
  assumes "normalized t" "r \<in> set (rows t)"
  shows "length r = length (columns t)" "is_time (hd r)" "list_all is_float (tl r)"
  using assms by (auto simp: normalized_def list_all_iff)

lemma normalized_row_nonempty:
  assumes "normalized t" "r \<in> set (rows t)"
  shows "r \<noteq> []"
proof -
  have "length r = length (columns t)" using assms by (rule normalized_row)
  moreover have "columns t \<noteq> []" using assms(1) by (auto elim: normalized_columns)
  ultimately show ?thesis by auto
qed

lemma get_cell_0:
  "r \<noteq> [] \<Longrightarrow> get_cell r 0 = hd r"
  by (cases r) (simp_all add: get_cell_def)

lemma is_time_is_date: "is_time c \<Longrightarrow> is_date c"
  by (cases c) auto

lemma normalized_float:
  assumes "normalized t" "r \<in> set (rows t)" "0 < j"
  shows "is_float (get_cell r j)"
proof (cases "j < length r")
  case True
  have "list_all is_float (tl r)" using assms(1,2) by (rule normalized_row)
  moreover from True assms(3) have "r ! j \<in> set (tl r)"
    by (cases r) (auto simp: nth_Cons')
  ultimately show ?thesis using True by (simp add: get_cell_def list_all_iff)
next
  case False
  then show ?thesis by (simp add: get_cell_def)
qed

lemma filter_normalized:
  assumes "normalized t" "resolve_column t kind = Inr col"
  shows "filter_data_by_date (Some t) a b kind = Inr (t\<lparr>rows := rows_in_range t a b\<rparr>, col)"
proof -
  have d: "\<not> list_ex (\<lambda>r. \<not> is_date (get_cell r 0)) (rows t)"
    using assms(1)
    by (auto simp: list_ex_iff get_cell_0 normalized_row_nonempty
        intro: is_time_is_date normalized_row(2))
  have f: "filter (\<lambda>r. in_range a b (get_cell r 0)) (rows t) = rows_in_range t a b"
    unfolding rows_in_range_def
    by (rule filter_cong) (auto simp: get_cell_0 normalized_row_nonempty [OF assms(1)])
  show ?thesis
    using assms d f by (simp add: filter_data_by_date_def normalized_date_index)
qed

lemma not_like_date: "\<not> gas_like ''date''" "\<not> elec_like ''date''"
  by code_simp+

lemma filter_hd_in:
  "filter P xs = c # ys \<Longrightarrow> c \<in> set xs \<and> P c"
proof -
  assume "filter P xs = c # ys"
  then have "c \<in> set (filter P xs)" by simp
  then show ?thesis by simp
qed

lemma resolve_column_member:
  assumes "resolve_column t kind = Inr col"
  shows "col \<in> set (columns t) \<and> col \<noteq> ''date''"
  using assms not_like_date
  by (auto simp: resolve_column_def split: if_splits list.splits dest!: filter_hd_in)

lemma col_index_member:
  "c \<in> set cs \<Longrightarrow> \<exists>j. col_index cs c = Some j"
  by (induction cs) auto

lemma col_index_nth:
  "col_index cs c = Some j \<Longrightarrow> j < length cs \<and> cs ! j = c"
  by (induction cs arbitrary: j) (auto split: if_splits)

lemma normalized_value_index:
  assumes "normalized t" "resolve_column t kind = Inr col"
  obtains j where "col_index (columns t) col = Some j" "0 < j"
proof -
  from assms(2) have m: "col \<in> set (columns t)" "col \<noteq> ''date''"
    by (auto dest: resolve_column_member)
  then obtain j where j: "col_index (columns t) col = Some j"
    by (auto dest: col_index_member)
  from assms(1) obtain cs where "columns t = ''date'' # cs" by (rule normalized_columns)
  with j m have "0 < j" by (auto split: if_splits)
  with j that show ?thesis by blast
qed

lemma rows_in_range_subset: "set (rows_in_range t a b) \<subseteq> set (rows t)"
  by (auto simp: rows_in_range_def)

lemma value_index_positive:
  assumes "normalized t" "resolve_column t kind = Inr col" "col_index (columns t) col = Some j"
  shows "0 < j"
  using assms by (auto elim: normalized_value_index)

section \<open>Range validation\<close>

text \<open>
  For two texts that the parser reads as times the validated range runs from the start
  to the end plus one day minus one second, and is rejected exactly when the start is
  after that end; the validation fails, always with the invalid-range error, exactly when
  the parser raises on a text or the times are in that order. When the end is a
  midnight, the shifted end is 23:59:59 of the same day. On a normalized table the
  filter keeps, in table order, exactly the rows whose date lies in the closed
  interval.
\<close>

lemma validate_date_range_times:
  assumes "to_datetime start_date = Some (TS x)" "to_datetime end_date = Some (TS y)"
  shows "validate_date_range to_datetime start_date end_date =
           (if y + day_ns - second_ns < x then Inl InvalidDateRange
            else Inr (TS x, TS (y + day_ns - second_ns)))"
  using assms by (simp add: validate_date_range_def)

lemma validate_date_range_Inl_iff:
  "validate_date_range to_datetime start_date end_date = Inl err \<longleftrightarrow>
     err = InvalidDateRange \<and>
     (to_datetime start_date = None \<or> to_datetime end_date = None \<or>
      (\<exists>x y. to_datetime start_date = Some (TS x) \<and> to_datetime end_date = Some (TS y) \<and>
             y + day_ns - second_ns < x))"
proof (cases "to_datetime start_date")
  case None
  then show ?thesis by (auto simp: validate_date_range_def)
next
  case (Some a)
  show ?thesis
  proof (cases "to_datetime end_date")
    case None
    with Some show ?thesis by (auto simp: validate_date_range_def)
  next
    case (Some b)
    with \<open>to_datetime start_date = Some a\<close> show ?thesis
      by (cases a; cases b) (auto simp: validate_date_range_def)
  qed
qed

lemma end_of_day:
  assumes "y mod day_ns = 0"
  shows "(y + day_ns - second_ns) div day_ns = y div day_ns"
    and "(y + day_ns - second_ns) mod day_ns = 86399 * second_ns"
proof -
  from assms have "day_ns dvd y" by (simp add: mod_eq_0_iff_dvd)
  then obtain k where k: "y = k * day_ns" by (auto simp: dvd_def mult.commute)
  have d: "day_ns = 86400000000000" "second_ns = 1000000000"
    by (simp_all add: day_ns_def second_ns_def)
  have e: "y + day_ns - second_ns = k * 86400000000000 + 86399000000000"
    using k by (simp add: d)
  show "(y + day_ns - second_ns) div day_ns = y div day_ns"
    unfolding e using k by (simp add: d)
  show "(y + day_ns - second_ns) mod day_ns = 86399 * second_ns"
    unfolding e by (simp add: d)
qed

lemma in_range_times:
  "in_range (TS a) (TS b) c \<longleftrightarrow> (\<exists>d. c = Date (TS d) \<and> a \<le> d \<and> d \<le> b)"
proof (cases c)
  case (Date s)
  then show ?thesis by (cases s) (auto simp: in_range_def)
qed (auto simp: in_range_def)

lemma filter_data_by_date_rows:
  assumes "normalized t" "filter_data_by_date (Some t) (TS a) (TS b) kind = Inr (filtered, col)"
  shows "rows filtered = filter (\<lambda>r. \<exists>d. hd r = Date (TS d) \<and> a \<le> d \<and> d \<le> b) (rows t)"
    and "columns filtered = columns t"
proof -
  from assms(2) obtain c where c: "resolve_column t kind = Inr c"
    by (cases "resolve_column t kind") (auto simp: filter_data_by_date_def)
  from filter_normalized [OF assms(1) c, of "TS a" "TS b"] assms(2)
  have f: "filtered = t\<lparr>rows := rows_in_range t (TS a) (TS b)\<rparr>" by simp
  show "rows filtered = filter (\<lambda>r. \<exists>d. hd r = Date (TS d) \<and> a \<le> d \<and> d \<le> b) (rows t)"
    by (simp add: f rows_in_range_def in_range_times)
  show "columns filtered = columns t" by (simp add: f)
qed

text \<open>
  C6. The empty text does not parse as a date: the library maps it to NaT without
  raising, the end of day added to NaT is NaT, no comparison with NaT holds, and the
  validation returns the pair of NaT as an accepted range, where the claim (and the
  function's own description, ``raises if the date range is invalid'') asks for a
  failure.
\<close>

theorem empty_text_passes_validation:
  "validate_date_range iso_to_datetime [] [] = Inr (NaT, NaT)"
  by code_simp

section \<open>Minimum and maximum\<close>

lemma values_of_set: "set (values_of cs) = {x. Num x \<in> set cs}"
  by (induction cs) (auto simp: values_of_def split: cell.splits)

lemma values_of_column:
  "set (values_of (map (\<lambda>r. get_cell r j) rs)) = {x. \<exists>r\<in>set rs. get_cell r j = Num x}"
  by (force simp: values_of_set image_iff)

lemma idxmin_None:
  "idxmin j rs = None \<longleftrightarrow> (\<forall>r\<in>set rs. \<forall>x. get_cell r j \<noteq> Num x)"
proof (cases "values_of (map (\<lambda>r. get_cell r j) rs)")
  case Nil
  then have "{x. \<exists>r\<in>set rs. get_cell r j = Num x} = {}"
    using values_of_column [of j rs] by simp
  with Nil show ?thesis by (auto simp: idxmin_def)
next
  case (Cons v vs)
  let ?m = "Min (set (v # vs))"
  have "set (v # vs) = {x. \<exists>r\<in>set rs. get_cell r j = Num x}"
    using values_of_column [of j rs] by (simp only: Cons)
  then have ex: "\<And>y. y \<in> set (v # vs) \<Longrightarrow> \<exists>r\<in>set rs. get_cell r j = Num y"
    by blast
  have "?m \<in> set (v # vs)" by (rule Min_in) simp_all
  then have "\<exists>r\<in>set rs. get_cell r j = Num ?m" by (rule ex)
  then obtain r where "r \<in> set rs" "get_cell r j = Num ?m" by blast
  then have "List.find (\<lambda>r. get_cell r j = Num ?m) rs \<noteq> None"
    by (auto simp: find_None_iff)
  moreover have "idxmin j rs = List.find (\<lambda>r. get_cell r j = Num ?m) rs"
    by (simp only: idxmin_def Cons list.case)
  ultimately have "idxmin j rs \<noteq> None" by simp
  moreover have "\<not> (\<forall>r\<in>set rs. \<forall>x. get_cell r j \<noteq> Num x)"
    using \<open>r \<in> set rs\<close> \<open>get_cell r j = Num ?m\<close> by blast
  ultimately show ?thesis by blast
qed

lemma idxmin_Some:
  assumes "idxmin j rs = Some r"
  shows "\<exists>i<length rs. \<exists>x. rs ! i = r \<and> get_cell r j = Num x \<and>
           (\<forall>k<length rs. \<forall>y. get_cell (rs ! k) j = Num y \<longrightarrow> x \<le> y) \<and>
           (\<forall>k<i. get_cell (rs ! k) j \<noteq> Num x)"
proof (cases "values_of (map (\<lambda>r. get_cell r j) rs)")
  case Nil
  with assms show ?thesis by (simp add: idxmin_def)
next
  case (Cons v vs)
  let ?m = "Min (set (v # vs))"
  from assms Cons have "List.find (\<lambda>r. get_cell r j = Num ?m) rs = Some r"
    by (simp add: idxmin_def)
  then obtain i where i: "i < length rs" "get_cell (rs ! i) j = Num ?m" "r = rs ! i"
    "\<forall>k<i. get_cell (rs ! k) j \<noteq> Num ?m"
    by (auto simp: find_Some_iff)
  have le: "\<forall>k<length rs. \<forall>y. get_cell (rs ! k) j = Num y \<longrightarrow> ?m \<le> y"
  proof (intro allI impI)
    fix k y
    assume "k < length rs" "get_cell (rs ! k) j = Num y"
    then have "y \<in> {x. \<exists>r\<in>set rs. get_cell r j = Num x}" by auto
    then have "y \<in> set (v # vs)" using values_of_column [of j rs] Cons by simp
    then show "?m \<le> y" by (intro Min_le) simp_all
  qed
  from i le show ?thesis by blast
qed

lemma idxmax_None:
  "idxmax j rs = None \<longleftrightarrow> (\<forall>r\<in>set rs. \<forall>x. get_cell r j \<noteq> Num x)"
proof (cases "values_of (map (\<lambda>r. get_cell r j) rs)")
  case Nil
  then have "{x. \<exists>r\<in>set rs. get_cell r j = Num x} = {}"
    using values_of_column [of j rs] by simp
  with Nil show ?thesis by (auto simp: idxmax_def)
next
  case (Cons v vs)
  let ?m = "Max (set (v # vs))"
  have "set (v # vs) = {x. \<exists>r\<in>set rs. get_cell r j = Num x}"
    using values_of_column [of j rs] by (simp only: Cons)
  then have ex: "\<And>y. y \<in> set (v # vs) \<Longrightarrow> \<exists>r\<in>set rs. get_cell r j = Num y"
    by blast
  have "?m \<in> set (v # vs)" by (rule Max_in) simp_all
  then have "\<exists>r\<in>set rs. get_cell r j = Num ?m" by (rule ex)
  then obtain r where "r \<in> set rs" "get_cell r j = Num ?m" by blast
  then have "List.find (\<lambda>r. get_cell r j = Num ?m) rs \<noteq> None"
    by (auto simp: find_None_iff)
  moreover have "idxmax j rs = List.find (\<lambda>r. get_cell r j = Num ?m) rs"
    by (simp only: idxmax_def Cons list.case)
  ultimately have "idxmax j rs \<noteq> None" by simp
  moreover have "\<not> (\<forall>r\<in>set rs. \<forall>x. get_cell r j \<noteq> Num x)"
    using \<open>r \<in> set rs\<close> \<open>get_cell r j = Num ?m\<close> by blast
  ultimately show ?thesis by blast
qed

lemma idxmax_Some:
  assumes "idxmax j rs = Some r"
  shows "\<exists>i<length rs. \<exists>x. rs ! i = r \<and> get_cell r j = Num x \<and>
           (\<forall>k<length rs. \<forall>y. get_cell (rs ! k) j = Num y \<longrightarrow> y \<le> x) \<and>
           (\<forall>k<i. get_cell (rs ! k) j \<noteq> Num x)"
proof (cases "values_of (map (\<lambda>r. get_cell r j) rs)")
  case Nil
  with assms show ?thesis by (simp add: idxmax_def)
next
  case (Cons v vs)
  let ?m = "Max (set (v # vs))"
  from assms Cons have "List.find (\<lambda>r. get_cell r j = Num ?m) rs = Some r"
    by (simp add: idxmax_def)
  then obtain i where i: "i < length rs" "get_cell (rs ! i) j = Num ?m" "r = rs ! i"
    "\<forall>k<i. get_cell (rs ! k) j \<noteq> Num ?m"
    by (auto simp: find_Some_iff)
  have le: "\<forall>k<length rs. \<forall>y. get_cell (rs ! k) j = Num y \<longrightarrow> y \<le> ?m"
  proof (intro allI impI)
    fix k y
    assume "k < length rs" "get_cell (rs ! k) j = Num y"
    then have "y \<in> {x. \<exists>r\<in>set rs. get_cell r j = Num x}" by auto
    then have "y \<in> set (v # vs)" using values_of_column [of j rs] Cons by simp
    then show "y \<le> ?m" by (intro Max_ge) simp_all
  qed
  from i le show ?thesis by blast
qed

lemma float_isna: "is_float c \<Longrightarrow> isna c \<longleftrightarrow> (\<forall>x. c \<noteq> Num x)"
  by (cases c) auto

lemma get_minimum_normalized:
  assumes "normalized t"
      and "validate_date_range to_datetime start_date end_date = Inr (a, b)"
      and "resolve_column t kind = Inr col"
      and "col_index (columns t) col = Some j"
  shows "get_minimum to_datetime (Some t) start_date end_date kind =
           (case idxmin j (rows_in_range t a b) of
              None \<Rightarrow> None
            | Some r \<Rightarrow> Some (get_cell r j, get_cell r 0))"
proof -
  have "idxmin j [] = None" by (simp add: idxmin_def values_of_def)
  then show ?thesis
    using assms by (simp add: get_minimum_def filter_normalized)
qed

lemma get_maximum_normalized:
  assumes "normalized t"
      and "validate_date_range to_datetime start_date end_date = Inr (a, b)"
      and "resolve_column t kind = Inr col"
      and "col_index (columns t) col = Some j"
  shows "get_maximum to_datetime (Some t) start_date end_date kind =
           (case idxmax j (rows_in_range t a b) of
              None \<Rightarrow> None
            | Some r \<Rightarrow> Some (get_cell r j, get_cell r 0))"
proof -
  have "idxmax j [] = None" by (simp add: idxmax_def values_of_def)
  then show ?thesis
    using assms by (simp add: get_maximum_def filter_normalized)
qed

lemma in_range_rows_isna:
  assumes "normalized t" "0 < j"
  shows "list_all (\<lambda>r. isna (get_cell r j)) (rows_in_range t a b) \<longleftrightarrow>
         (\<forall>r\<in>set (rows_in_range t a b). \<forall>x. get_cell r j \<noteq> Num x)"
proof -
  have "\<And>r. r \<in> set (rows_in_range t a b) \<Longrightarrow> is_float (get_cell r j)"
    using assms rows_in_range_subset [of t a b] by (auto intro: normalized_float)
  then show ?thesis by (auto simp: list_all_iff float_isna)
qed

text \<open>
  C3. On a normalized table, for a range that validation accepts and a kind whose column
  resolves, \<open>get_minimum\<close> (resp. \<open>get_maximum\<close>) returns the smallest (resp.
  largest) non-missing value of the resolved column among the rows in range, with the
  date of that row, the first such row in table order when several hold the value; it
  returns nothing exactly when every row in range is missing in that column, which
  includes the case of no row in range.
\<close>

theorem minimum_maximum_first_extreme:
  assumes "normalized t"
      and "validate_date_range to_datetime start_date end_date = Inr (a, b)"
      and "resolve_column t kind = Inr col"
      and "col_index (columns t) col = Some j"
  shows "first_extreme (\<le>) j (rows_in_range t a b)
           (get_minimum to_datetime (Some t) start_date end_date kind) \<and>
         first_extreme (\<ge>) j (rows_in_range t a b)
           (get_maximum to_datetime (Some t) start_date end_date kind)"
proof -
  let ?R = "rows_in_range t a b"
  have pos: "0 < j" using assms(1,3,4) by (rule value_index_positive)
  have na: "list_all (\<lambda>r. isna (get_cell r j)) ?R \<longleftrightarrow>
            (\<forall>r\<in>set ?R. \<forall>x. get_cell r j \<noteq> Num x)"
    using assms(1) pos by (rule in_range_rows_isna)
  have hd0: "\<And>i. i < length ?R \<Longrightarrow> get_cell (?R ! i) 0 = hd (?R ! i)"
  proof -
    fix i assume "i < length ?R"
    then have "?R ! i \<in> set (rows t)"
      using rows_in_range_subset [of t a b] nth_mem by blast
    then show "get_cell (?R ! i) 0 = hd (?R ! i)"
      using assms(1) by (simp add: get_cell_0 normalized_row_nonempty)
  qed
  have mn: "first_extreme (\<le>) j ?R (get_minimum to_datetime (Some t) start_date end_date kind)"
  proof (cases "idxmin j ?R")
    case None
    then have "\<forall>r\<in>set ?R. \<forall>x. get_cell r j \<noteq> Num x"
      by (simp add: idxmin_None)
    with na have "list_all (\<lambda>r. isna (get_cell r j)) ?R" by simp
    then show ?thesis
      by (simp add: get_minimum_normalized [OF assms] first_extreme_def None)
  next
    case (Some r)
    from idxmin_Some [OF Some] obtain i x where
      "i < length ?R" "?R ! i = r" "get_cell r j = Num x"
      "\<forall>k<length ?R. \<forall>y. get_cell (?R ! k) j = Num y \<longrightarrow> x \<le> y"
      "\<forall>k<i. get_cell (?R ! k) j \<noteq> Num x"
      by blast
    then show ?thesis
      using Some hd0 [of i]
      by (auto simp: get_minimum_normalized [OF assms] first_extreme_def)
  qed
  have mx: "first_extreme (\<ge>) j ?R (get_maximum to_datetime (Some t) start_date end_date kind)"
  proof (cases "idxmax j ?R")
    case None
    then have "\<forall>r\<in>set ?R. \<forall>x. get_cell r j \<noteq> Num x"
      by (simp add: idxmax_None)
    with na have "list_all (\<lambda>r. isna (get_cell r j)) ?R" by simp
    then show ?thesis
      by (simp add: get_maximum_normalized [OF assms] first_extreme_def None)
  next
    case (Some r)
    from idxmax_Some [OF Some] obtain i x where
      "i < length ?R" "?R ! i = r" "get_cell r j = Num x"
      "\<forall>k<length ?R. \<forall>y. get_cell (?R ! k) j = Num y \<longrightarrow> y \<le> x"
      "\<forall>k<i. get_cell (?R ! k) j \<noteq> Num x"
      by blast
    then show ?thesis
      using Some hd0 [of i]
      by (auto simp: get_maximum_normalized [OF assms] first_extreme_def)
  qed
  from mn mx show ?thesis ..
qed

theorem minimum_maximum_first_extreme_witness:
  "normalized sample \<and>
   validate_date_range iso_to_datetime ''2024-12-01'' ''2024-12-03''
     = Inr (day 20058, TS (20061 * day_ns - second_ns)) \<and>
   resolve_column sample ''electricity'' = Inr ''electricity_consumption'' \<and>
   col_index (columns sample) ''electricity_consumption'' = Some 1 \<and>
   get_minimum iso_to_datetime (Some sample) ''2024-12-01'' ''2024-12-03'' ''electricity''
     = Some (Num 5, Date (day 20059)) \<and>
   get_maximum iso_to_datetime (Some sample) ''2024-12-01'' ''2024-12-03'' ''electricity''
     = Some (Num 20, Date (day 20060)) \<and>
   first_extreme (\<le>) 1 (rows_in_range sample (day 20058) (TS (20061 * day_ns - second_ns)))
     (Some (Num 5, Date (day 20059))) \<and>
   first_extreme (\<ge>) 1 (rows_in_range sample (day 20058) (TS (20061 * day_ns - second_ns)))
     (Some (Num 20, Date (day 20060)))"
proof -
  have n: "normalized sample" by code_simp
  have v: "validate_date_range iso_to_datetime ''2024-12-01'' ''2024-12-03''
             = Inr (day 20058, TS (20061 * day_ns - second_ns))" by code_simp
  have r: "resolve_column sample ''electricity'' = Inr ''electricity_consumption''"
    by code_simp
  have c: "col_index (columns sample) ''electricity_consumption'' = Some 1" by code_simp
  have mn: "get_minimum iso_to_datetime (Some sample) ''2024-12-01'' ''2024-12-03''
              ''electricity'' = Some (Num 5, Date (day 20059))" by code_simp
  have mx: "get_maximum iso_to_datetime (Some sample) ''2024-12-01'' ''2024-12-03''
              ''electricity'' = Some (Num 20, Date (day 20060))" by code_simp
  show ?thesis
    using minimum_maximum_first_extreme [OF n v r c] n v r c mn mx by simp
qed

section \<open>Threshold counts\<close>

lemma cell_gt_iff: "cell_gt c th \<longleftrightarrow> (\<exists>x. c = Num x \<and> th < x)"
  by (cases c) auto

lemma cell_lt_iff: "cell_lt c th \<longleftrightarrow> (\<exists>x. c = Num x \<and> x < th)"
  by (cases c) auto

text \<open>
  C5. On a normalized table, for an accepted range and a resolved column, the count above
  a threshold is the number of rows in range whose value is present and strictly greater
  than the threshold, the count below the number of those strictly less; a missing value
  is never counted; and with no row in range the result is nothing rather than 0.
\<close>

theorem threshold_counts:
  assumes "normalized t"
      and "validate_date_range to_datetime start_date end_date = Inr (a, b)"
      and "resolve_column t kind = Inr col"
      and "col_index (columns t) col = Some j"
  shows "count_days_above_threshold to_datetime (Some t) start_date end_date th kind =
           (if rows_in_range t a b = [] then None
            else Some (card {i. i < length (rows_in_range t a b) \<and>
                               (\<exists>x. get_cell (rows_in_range t a b ! i) j = Num x \<and> th < x)})) \<and>
         count_days_below_threshold to_datetime (Some t) start_date end_date th kind =
           (if rows_in_range t a b = [] then None
            else Some (card {i. i < length (rows_in_range t a b) \<and>
                               (\<exists>x. get_cell (rows_in_range t a b ! i) j = Num x \<and> x < th)}))"
  using assms
  by (simp add: count_days_above_threshold_def count_days_below_threshold_def
      filter_normalized length_filter_conv_card cell_gt_iff cell_lt_iff)

theorem threshold_counts_witness:
  "normalized sample \<and>
   validate_date_range iso_to_datetime ''2024-12-01'' ''2024-12-03''
     = Inr (day 20058, TS (20061 * day_ns - second_ns)) \<and>
   resolve_column sample ''electricity'' = Inr ''electricity_consumption'' \<and>
   col_index (columns sample) ''electricity_consumption'' = Some 1 \<and>
   count_days_above_threshold iso_to_datetime (Some sample) ''2024-12-01'' ''2024-12-03'' 10
     ''electricity'' = Some 1 \<and>
   count_days_below_threshold iso_to_datetime (Some sample) ''2024-12-01'' ''2024-12-03'' 10
     ''electricity'' = Some 1 \<and>
   card {i. i < length (rows_in_range sample (day 20058) (TS (20061 * day_ns - second_ns))) \<and>
            (\<exists>x. get_cell (rows_in_range sample (day 20058)
                              (TS (20061 * day_ns - second_ns)) ! i) 1 = Num x \<and> 10 < x)} = 1"
proof -
  have n: "normalized sample" by code_simp
  have v: "validate_date_range iso_to_datetime ''2024-12-01'' ''2024-12-03''
             = Inr (day 20058, TS (20061 * day_ns - second_ns))" by code_simp
  have r: "resolve_column sample ''electricity'' = Inr ''electricity_consumption''"
    by code_simp
  have c: "col_index (columns sample) ''electricity_consumption'' = Some 1" by code_simp
  have ne: "rows_in_range sample (day 20058) (TS (20061 * day_ns - second_ns)) \<noteq> []"
    by code_simp
  have ab: "count_days_above_threshold iso_to_datetime (Some sample) ''2024-12-01''
              ''2024-12-03'' 10 ''electricity'' = Some 1" by code_simp
  have be: "count_days_below_threshold iso_to_datetime (Some sample) ''2024-12-01''
              ''2024-12-03'' 10 ''electricity'' = Some 1" by code_simp
  show ?thesis
    using threshold_counts [OF n v r c, of 10] n v r c ne ab be by simp
qed

section \<open>Extraction\<close>

lemma select2_subtable:
  assumes "normalized t" "set rs \<subseteq> set (rows t)"
  shows "select2 (hd (columns t)) 0 col j (dropna j rs) = subtable col j rs"
proof -
  have h: "hd (columns t) = ''date''"
    using assms(1) by (auto elim: normalized_columns)
  have "map (\<lambda>r. [get_cell r 0, get_cell r j]) (dropna j rs)
        = map (\<lambda>r. [hd r, get_cell r j]) (dropna j rs)"
    using assms by (intro map_cong) (auto simp: dropna_def get_cell_0 normalized_row_nonempty)
  then show ?thesis by (simp add: select2_def subtable_def h dropna_def)
qed

lemma subtable_rows_empty:
  "rows (subtable col j rs) = [] \<longleftrightarrow> dropna j rs = []"
  by (simp add: subtable_def dropna_def)

lemma get_data_for_period_normalized:
  assumes "normalized t"
      and "validate_date_range to_datetime start_date end_date = Inr (a, b)"
      and "resolve_column t kind = Inr col"
      and "col_index (columns t) col = Some j"
  shows "get_data_for_period to_datetime (Some t) start_date end_date kind =
           (if rows (subtable col j (rows_in_range t a b)) \<noteq> []
            then Some (subtable col j (rows_in_range t a b))
            else if kind = ''electricity'' then
              (case resolve_column t ''gas'' of
                 Inl e \<Rightarrow> None
               | Inr gas \<Rightarrow>
                   (case col_index (columns t) gas of
                      None \<Rightarrow> None
                    | Some g \<Rightarrow>
                        if rows (subtable gas g (rows_in_range t a b)) \<noteq> []
                        then Some (subtable gas g (rows_in_range t a b))
                        else None))
            else None)"
proof -
  let ?R = "rows_in_range t a b"
  have sub: "\<And>c i. select2 (hd (columns t)) 0 c i (dropna i ?R) = subtable c i ?R"
    using assms(1) rows_in_range_subset by (rule select2_subtable)
  have f: "filter_data_by_date (Some t) a b kind = Inr (t\<lparr>rows := ?R\<rparr>, col)"
    using assms(1,3) by (rule filter_normalized)
  have e: "?R = [] \<Longrightarrow> dropna j ?R = []" "\<And>g. ?R = [] \<Longrightarrow> dropna g ?R = []"
    by (simp_all add: dropna_def)
  show ?thesis
  proof (cases "resolve_column t ''gas''")
    case (Inl err)
    then have g: "filter_data_by_date (Some t) a b ''gas'' = Inl err"
      by (simp add: filter_data_by_date_def)
    show ?thesis
      using assms(2,4) e
      by (auto simp: get_data_for_period_def f g Inl sub subtable_rows_empty Let_def)
  next
    case (Inr gas)
    then have g: "filter_data_by_date (Some t) a b ''gas'' = Inr (t\<lparr>rows := ?R\<rparr>, gas)"
      using assms(1) by (simp add: filter_normalized)
    show ?thesis
      using assms(2,4) e
      by (auto simp: get_data_for_period_def f g Inr sub subtable_rows_empty Let_def
          split: option.splits)
  qed
qed

text \<open>
  C7. On a normalized table, for an accepted range and a resolved column,
  \<open>get_data_for_period\<close> returns the two-column table (date, resolved column) of the
  rows in range that have a value in that column; when that table is empty and the kind is
  electricity, it returns the same table built on the gas column if the gas column
  resolves and some row in range has a gas value; otherwise it returns nothing.
\<close>

theorem data_for_period_subtable:
  assumes "normalized t"
      and "validate_date_range to_datetime start_date end_date = Inr (a, b)"
      and "resolve_column t kind = Inr col"
      and "col_index (columns t) col = Some j"
  shows "get_data_for_period to_datetime (Some t) start_date end_date kind =
           (if rows (subtable col j (rows_in_range t a b)) \<noteq> []
            then Some (subtable col j (rows_in_range t a b))
            else if kind = ''electricity'' then
              (case resolve_column t ''gas'' of
                 Inl e \<Rightarrow> None
               | Inr gas \<Rightarrow>
                   (case col_index (columns t) gas of
                      None \<Rightarrow> None
                    | Some g \<Rightarrow>
                        if rows (subtable gas g (rows_in_range t a b)) \<noteq> []
                        then Some (subtable gas g (rows_in_range t a b))
                        else None))
            else None)"
  using assms by (rule get_data_for_period_normalized)

theorem data_for_period_subtable_witness:
  "normalized sample \<and>
   validate_date_range iso_to_datetime ''2024-12-10'' ''2024-12-10''
     = Inr (day 20067, TS (20068 * day_ns - second_ns)) \<and>
   resolve_column sample ''electricity'' = Inr ''electricity_consumption'' \<and>
   col_index (columns sample) ''electricity_consumption'' = Some 1 \<and>
   rows (subtable ''electricity_consumption'' 1
           (rows_in_range sample (day 20067) (TS (20068 * day_ns - second_ns)))) = [] \<and>
   get_data_for_period iso_to_datetime (Some sample) ''2024-12-10'' ''2024-12-10''
     ''electricity''
     = Some \<lparr>columns = [''date'', ''gas_consumption''], rows = [[Date (day 20067), Num 4]]\<rparr> \<and>
   subtable ''gas_consumption'' 2
     (rows_in_range sample (day 20067) (TS (20068 * day_ns - second_ns)))
     = \<lparr>columns = [''date'', ''gas_consumption''], rows = [[Date (day 20067), Num 4]]\<rparr>"
proof -
  have n: "normalized sample" by code_simp
  have v: "validate_date_range iso_to_datetime ''2024-12-10'' ''2024-12-10''
             = Inr (day 20067, TS (20068 * day_ns - second_ns))" by code_simp
  have r: "resolve_column sample ''electricity'' = Inr ''electricity_consumption''"
    by code_simp
  have c: "col_index (columns sample) ''electricity_consumption'' = Some 1" by code_simp
  have e: "rows (subtable ''electricity_consumption'' 1
             (rows_in_range sample (day 20067) (TS (20068 * day_ns - second_ns)))) = []"
    by code_simp
  have g: "resolve_column sample ''gas'' = Inr ''gas_consumption''" by code_simp
  have gi: "col_index (columns sample) ''gas_consumption'' = Some 2" by code_simp
  have s: "subtable ''gas_consumption'' 2
             (rows_in_range sample (day 20067) (TS (20068 * day_ns - second_ns)))
           = \<lparr>columns = [''date'', ''gas_consumption''], rows = [[Date (day 20067), Num 4]]\<rparr>"
    by code_simp
  show ?thesis
    using data_for_period_subtable [OF n v r c] n v r c e g gi s by simp
qed

section \<open>Errors and empty results\<close>

lemma filter_error_is_no_data:
  assumes "validate_date_range to_datetime start_date end_date = Inr (a, b)"
      and "filter_data_by_date data a b kind = Inl err"
  shows "get_minimum to_datetime data start_date end_date kind = None"
    and "get_maximum to_datetime data start_date end_date kind = None"
    and "get_average to_datetime data start_date end_date kind = None"
    and "count_days_above_threshold to_datetime data start_date end_date th kind = None"
    and "count_days_below_threshold to_datetime data start_date end_date th kind = None"
    and "get_data_for_period to_datetime data start_date end_date kind = None"
  using assms
  by (simp_all add: get_minimum_def get_maximum_def get_average_def
      count_days_above_threshold_def count_days_below_threshold_def get_data_for_period_def)

lemma empty_filter_is_no_data:
  assumes "validate_date_range to_datetime start_date end_date = Inr (a, b)"
      and "filter_data_by_date data a b kind = Inr (filtered, col)"
      and "rows filtered = []"
  shows "get_minimum to_datetime data start_date end_date kind = None"
    and "get_maximum to_datetime data start_date end_date kind = None"
    and "get_average to_datetime data start_date end_date kind = None"
    and "count_days_above_threshold to_datetime data start_date end_date th kind = None"
    and "count_days_below_threshold to_datetime data start_date end_date th kind = None"
    and "get_data_for_period to_datetime data start_date end_date kind = None"
  using assms
  by (simp_all add: get_minimum_def get_maximum_def get_average_def
      count_days_above_threshold_def count_days_below_threshold_def get_data_for_period_def)

lemma empty_range_is_no_data:
  assumes "normalized t"
      and "validate_date_range to_datetime start_date end_date = Inr (a, b)"
      and "rows_in_range t a b = []"
  shows "get_minimum to_datetime (Some t) start_date end_date kind = None \<and>
         get_maximum to_datetime (Some t) start_date end_date kind = None \<and>
         get_average to_datetime (Some t) start_date end_date kind = None \<and>
         count_days_above_threshold to_datetime (Some t) start_date end_date th kind = None \<and>
         count_days_below_threshold to_datetime (Some t) start_date end_date th kind = None \<and>
         get_data_for_period to_datetime (Some t) start_date end_date kind = None"
proof (cases "resolve_column t kind")
  case (Inl err)
  then have f: "filter_data_by_date (Some t) a b kind = Inl err"
    by (simp add: filter_data_by_date_def)
  from filter_error_is_no_data [OF assms(2) f] show ?thesis by simp
next
  case (Inr col)
  with assms(1) have f: "filter_data_by_date (Some t) a b kind
                           = Inr (t\<lparr>rows := rows_in_range t a b\<rparr>, col)"
    by (rule filter_normalized)
  have e: "rows (t\<lparr>rows := rows_in_range t a b\<rparr>) = []" using assms(3) by simp
  from empty_filter_is_no_data [OF assms(2) f e] show ?thesis by simp
qed

lemma rejected_is_no_data:
  assumes "validate_date_range to_datetime start_date end_date = Inl err"
  shows "err = InvalidDateRange \<and>
         get_minimum to_datetime data start_date end_date kind = None \<and>
         get_maximum to_datetime data start_date end_date kind = None \<and>
         get_average to_datetime data start_date end_date kind = None \<and>
         count_days_above_threshold to_datetime data start_date end_date th kind = None \<and>
         count_days_below_threshold to_datetime data start_date end_date th kind = None \<and>
         get_data_for_period to_datetime data start_date end_date kind = None"
proof -
  from assms have "err = InvalidDateRange" by (simp add: validate_date_range_Inl_iff)
  with assms show ?thesis
    by (simp add: get_minimum_def get_maximum_def get_average_def
        count_days_above_threshold_def count_days_below_threshold_def
        get_data_for_period_def)
qed

lemma rejects_raise_or_reversed:
  assumes "to_datetime start_date = None \<or> to_datetime end_date = None \<or>
           (\<exists>x y. to_datetime start_date = Some (TS x) \<and> to_datetime end_date = Some (TS y) \<and>
                  y + day_ns - second_ns < x)"
  shows "validate_date_range to_datetime start_date end_date = Inl InvalidDateRange"
  using assms by (simp add: validate_date_range_Inl_iff)

lemma missing_column_is_no_data:
  assumes "validate_date_range to_datetime start_date end_date = Inr (a, b)"
      and "filter_data_by_date data a b kind = Inr (filtered, col)"
      and "col_index (columns filtered) col = Some j"
  shows "idxmin j (rows filtered) = None \<Longrightarrow>
           get_minimum to_datetime data start_date end_date kind = None"
    and "idxmax j (rows filtered) = None \<Longrightarrow>
           get_maximum to_datetime data start_date end_date kind = None"
  using assms by (simp_all add: get_minimum_def get_maximum_def)

text \<open>
  C2, amended. Each query returns a result of its type or nothing, and whatever is raised
  inside it is caught and returned as nothing: a range that validation rejects, a failure
  of the filter (no data loaded, no column for the kind, a date column that is absent or
  does not hold dates), a search for the extreme row that finds no value. The validation
  fails, with the invalid-range error and no other, when the parser raises on one of the
  texts or reads both as times with the start after the expanded end. A query called
  with a range that validation rejects returns the same as with an accepted range that
  holds no row of the table, so the caller of a query cannot tell the two apart; only a
  caller of the validation itself sees the failure.
\<close>

theorem rejected_range_is_no_data:
  "(to_datetime start_date = None \<or> to_datetime end_date = None \<or>
    (\<exists>x y. to_datetime start_date = Some (TS x) \<and> to_datetime end_date = Some (TS y) \<and>
           y + day_ns - second_ns < x)
    \<longrightarrow> validate_date_range to_datetime start_date end_date = Inl InvalidDateRange) \<and>
   (\<forall>err. validate_date_range to_datetime start_date end_date = Inl err \<longrightarrow>
      err = InvalidDateRange \<and>
      get_minimum to_datetime data start_date end_date kind = None \<and>
      get_maximum to_datetime data start_date end_date kind = None \<and>
      get_average to_datetime data start_date end_date kind = None \<and>
      count_days_above_threshold to_datetime data start_date end_date th kind = None \<and>
      count_days_below_threshold to_datetime data start_date end_date th kind = None \<and>
      get_data_for_period to_datetime data start_date end_date kind = None) \<and>
   (\<forall>a b err. validate_date_range to_datetime start_date end_date = Inr (a, b) \<and>
      filter_data_by_date data a b kind = Inl err \<longrightarrow>
      get_minimum to_datetime data start_date end_date kind = None \<and>
      get_maximum to_datetime data start_date end_date kind = None \<and>
      get_average to_datetime data start_date end_date kind = None \<and>
      count_days_above_threshold to_datetime data start_date end_date th kind = None \<and>
      count_days_below_threshold to_datetime data start_date end_date th kind = None \<and>
      get_data_for_period to_datetime data start_date end_date kind = None) \<and>
   (\<forall>a b filtered col j. validate_date_range to_datetime start_date end_date = Inr (a, b) \<and>
      filter_data_by_date data a b kind = Inr (filtered, col) \<and>
      col_index (columns filtered) col = Some j \<longrightarrow>
      (idxmin j (rows filtered) = None \<longrightarrow>
         get_minimum to_datetime data start_date end_date kind = None) \<and>
      (idxmax j (rows filtered) = None \<longrightarrow>
         get_maximum to_datetime data start_date end_date kind = None)) \<and>
   ((get_minimum to_datetime data start_date end_date kind = None \<or>
     (\<exists>v d. get_minimum to_datetime data start_date end_date kind = Some (v, d))) \<and>
    (get_maximum to_datetime data start_date end_date kind = None \<or>
     (\<exists>v d. get_maximum to_datetime data start_date end_date kind = Some (v, d))) \<and>
    (get_average to_datetime data start_date end_date kind = None \<or>
     (\<exists>m. get_average to_datetime data start_date end_date kind = Some m)) \<and>
    (count_days_above_threshold to_datetime data start_date end_date th kind = None \<or>
     (\<exists>n. count_days_above_threshold to_datetime data start_date end_date th kind = Some n)) \<and>
    (count_days_below_threshold to_datetime data start_date end_date th kind = None \<or>
     (\<exists>n. count_days_below_threshold to_datetime data start_date end_date th kind = Some n)) \<and>
    (get_data_for_period to_datetime data start_date end_date kind = None \<or>
     (\<exists>sub. get_data_for_period to_datetime data start_date end_date kind = Some sub))) \<and>
   (\<forall>t err a b. data = Some t \<and> normalized t \<and>
      validate_date_range to_datetime start_date end_date = Inl err \<and>
      validate_date_range to_datetime other_start other_end = Inr (a, b) \<and>
      rows_in_range t a b = [] \<longrightarrow>
      get_minimum to_datetime data start_date end_date kind
        = get_minimum to_datetime data other_start other_end kind \<and>
      get_maximum to_datetime data start_date end_date kind
        = get_maximum to_datetime data other_start other_end kind \<and>
      get_average to_datetime data start_date end_date kind
        = get_average to_datetime data other_start other_end kind \<and>
      count_days_above_threshold to_datetime data start_date end_date th kind
        = count_days_above_threshold to_datetime data other_start other_end th kind \<and>
      count_days_below_threshold to_datetime data start_date end_date th kind
        = count_days_below_threshold to_datetime data other_start other_end th kind \<and>
      get_data_for_period to_datetime data start_date end_date kind
        = get_data_for_period to_datetime data other_start other_end kind)"
  (is "?fails \<and> ?caught \<and> ?filter \<and> ?lookup \<and> ?typed \<and> ?same")
proof -
  have 1: ?fails
    by (intro impI) (rule rejects_raise_or_reversed)
  have 2: ?caught
    by (intro allI impI) (rule rejected_is_no_data)
  have 3: ?filter
  proof (intro allI impI)
    fix a b err
    assume h: "validate_date_range to_datetime start_date end_date = Inr (a, b) \<and>
               filter_data_by_date data a b kind = Inl err"
    then have v: "validate_date_range to_datetime start_date end_date = Inr (a, b)"
      and f: "filter_data_by_date data a b kind = Inl err" by simp_all
    from filter_error_is_no_data [OF v f]
    show "get_minimum to_datetime data start_date end_date kind = None \<and>
      get_maximum to_datetime data start_date end_date kind = None \<and>
      get_average to_datetime data start_date end_date kind = None \<and>
      count_days_above_threshold to_datetime data start_date end_date th kind = None \<and>
      count_days_below_threshold to_datetime data start_date end_date th kind = None \<and>
      get_data_for_period to_datetime data start_date end_date kind = None"
      by simp
  qed
  have 6: ?lookup
  proof (intro allI impI)
    fix a b filtered col j
    assume h: "validate_date_range to_datetime start_date end_date = Inr (a, b) \<and>
      filter_data_by_date data a b kind = Inr (filtered, col) \<and>
      col_index (columns filtered) col = Some j"
    then have v: "validate_date_range to_datetime start_date end_date = Inr (a, b)"
      and f: "filter_data_by_date data a b kind = Inr (filtered, col)"
      and c: "col_index (columns filtered) col = Some j" by simp_all
    from missing_column_is_no_data [OF v f c]
    show "(idxmin j (rows filtered) = None \<longrightarrow>
         get_minimum to_datetime data start_date end_date kind = None) \<and>
      (idxmax j (rows filtered) = None \<longrightarrow>
         get_maximum to_datetime data start_date end_date kind = None)"
      by simp
  qed
  have 4: ?typed
    by (intro conjI) (metis option.exhaust surj_pair)+
  have 5: ?same
  proof (intro allI impI)
    fix t err a b
    assume h: "data = Some t \<and> normalized t \<and>
      validate_date_range to_datetime start_date end_date = Inl err \<and>
      validate_date_range to_datetime other_start other_end = Inr (a, b) \<and>
      rows_in_range t a b = []"
    then have d: "data = Some t" and n: "normalized t"
      and r: "validate_date_range to_datetime start_date end_date = Inl err"
      and v: "validate_date_range to_datetime other_start other_end = Inr (a, b)"
      and e: "rows_in_range t a b = []" by simp_all
    from rejected_is_no_data [OF r, of data kind th]
      empty_range_is_no_data [OF n v e, of kind th] d
    show "get_minimum to_datetime data start_date end_date kind
        = get_minimum to_datetime data other_start other_end kind \<and>
      get_maximum to_datetime data start_date end_date kind
        = get_maximum to_datetime data other_start other_end kind \<and>
      get_average to_datetime data start_date end_date kind
        = get_average to_datetime data other_start other_end kind \<and>
      count_days_above_threshold to_datetime data start_date end_date th kind
        = count_days_above_threshold to_datetime data other_start other_end th kind \<and>
      count_days_below_threshold to_datetime data start_date end_date th kind
        = count_days_below_threshold to_datetime data other_start other_end th kind \<and>
      get_data_for_period to_datetime data start_date end_date kind
        = get_data_for_period to_datetime data other_start other_end kind"
      by simp
  qed
  from 1 2 3 6 4 5 show ?thesis by blast
qed

theorem rejected_range_is_no_data_witness:
  "validate_date_range iso_to_datetime ''2024-12-05'' ''2024-12-01'' = Inl InvalidDateRange \<and>
   validate_date_range iso_to_datetime ''yesterday'' ''2024-12-01'' = Inl InvalidDateRange \<and>
   normalized sample \<and>
   validate_date_range iso_to_datetime ''2025-01-01'' ''2025-01-02''
     = Inr (day 20089, TS (20091 * day_ns - second_ns)) \<and>
   rows_in_range sample (day 20089) (TS (20091 * day_ns - second_ns)) = [] \<and>
   get_minimum iso_to_datetime (Some sample) ''2024-12-05'' ''2024-12-01'' ''electricity''
     = None \<and>
   get_minimum iso_to_datetime (Some sample) ''2024-12-05'' ''2024-12-01'' ''electricity''
     = get_minimum iso_to_datetime (Some sample) ''2025-01-01'' ''2025-01-02'' ''electricity'' \<and>
   get_data_for_period iso_to_datetime (Some sample) ''2024-12-05'' ''2024-12-01''
       ''electricity''
     = get_data_for_period iso_to_datetime (Some sample) ''2025-01-01'' ''2025-01-02''
         ''electricity'' \<and>
   filter_data_by_date None (day 20058) (TS (20061 * day_ns - second_ns)) ''electricity''
     = Inl NoDataLoaded \<and>
   get_average iso_to_datetime None ''2024-12-01'' ''2024-12-03'' ''electricity'' = None"
proof -
  let ?s = "''2024-12-05''" and ?e = "''2024-12-01''"
  let ?s' = "''2025-01-01''" and ?e' = "''2025-01-02''"
  note T = rejected_range_is_no_data [of iso_to_datetime ?s ?e "Some sample"
      "''electricity''" 10 ?s' ?e']
  note U = rejected_range_is_no_data [of iso_to_datetime "''yesterday''" ?e "Some sample"
      "''electricity''" 10 ?s' ?e']
  note V = rejected_range_is_no_data [of iso_to_datetime "''2024-12-01''" "''2024-12-03''"
      None "''electricity''" 10 ?s' ?e']
  have ps: "iso_to_datetime ?s = Some (TS 1733356800000000000)" by code_simp
  have pe: "iso_to_datetime ?e = Some (TS 1733011200000000000)" by code_simp
  have lt: "(1733011200000000000::int) + day_ns - second_ns < 1733356800000000000"
    by (simp add: day_ns_def second_ns_def)
  from ps pe lt have rev: "\<exists>x y. iso_to_datetime ?s = Some (TS x) \<and>
      iso_to_datetime ?e = Some (TS y) \<and> y + day_ns - second_ns < x"
    by blast
  have a: "validate_date_range iso_to_datetime ?s ?e = Inl InvalidDateRange"
    using T [THEN conjunct1] rev by blast
  have py: "iso_to_datetime ''yesterday'' = None" by code_simp
  have b: "validate_date_range iso_to_datetime ''yesterday'' ?e = Inl InvalidDateRange"
    using U [THEN conjunct1] py by blast
  have n: "normalized sample" by code_simp
  have v: "validate_date_range iso_to_datetime ?s' ?e'
             = Inr (day 20089, TS (20091 * day_ns - second_ns))" by code_simp
  have e: "rows_in_range sample (day 20089) (TS (20091 * day_ns - second_ns)) = []"
    by code_simp
  have c: "get_minimum iso_to_datetime (Some sample) ?s ?e ''electricity'' = None"
    using T [THEN conjunct2, THEN conjunct1] a by blast
  have same: "get_minimum iso_to_datetime (Some sample) ?s ?e ''electricity''
        = get_minimum iso_to_datetime (Some sample) ?s' ?e' ''electricity'' \<and>
      get_data_for_period iso_to_datetime (Some sample) ?s ?e ''electricity''
        = get_data_for_period iso_to_datetime (Some sample) ?s' ?e' ''electricity''"
    using T [THEN conjunct2, THEN conjunct2, THEN conjunct2, THEN conjunct2, THEN conjunct2]
      a n v e by blast
  have w: "validate_date_range iso_to_datetime ''2024-12-01'' ''2024-12-03''
             = Inr (day 20058, TS (20061 * day_ns - second_ns))" by code_simp
  have f: "filter_data_by_date None (day 20058) (TS (20061 * day_ns - second_ns))
             ''electricity'' = Inl NoDataLoaded" by code_simp
  have g: "get_average iso_to_datetime None ''2024-12-01'' ''2024-12-03'' ''electricity''
             = None"
    using V [THEN conjunct2, THEN conjunct2, THEN conjunct1] w f by blast
  from a b n v e c same f g show ?thesis by blast
qed

text \<open>
  C2 as stated fails: a reversed range, which validation rejects, and an accepted range
  with no row in it give the same result in every query.
\<close>

theorem rejected_range_indistinguishable_counterexample:
  "validate_date_range iso_to_datetime ''2024-12-05'' ''2024-12-01'' = Inl InvalidDateRange \<and>
   validate_date_range iso_to_datetime ''2025-01-01'' ''2025-01-02''
     = Inr (day 20089, TS (20091 * day_ns - second_ns)) \<and>
   rows_in_range sample (day 20089) (TS (20091 * day_ns - second_ns)) = [] \<and>
   get_minimum iso_to_datetime (Some sample) ''2024-12-05'' ''2024-12-01'' ''electricity''
     = get_minimum iso_to_datetime (Some sample) ''2025-01-01'' ''2025-01-02'' ''electricity'' \<and>
   get_average iso_to_datetime (Some sample) ''2024-12-05'' ''2024-12-01'' ''electricity''
     = get_average iso_to_datetime (Some sample) ''2025-01-01'' ''2025-01-02'' ''electricity'' \<and>
   count_days_above_threshold iso_to_datetime (Some sample) ''2024-12-05'' ''2024-12-01'' 10
       ''electricity''
     = count_days_above_threshold iso_to_datetime (Some sample) ''2025-01-01'' ''2025-01-02'' 10
         ''electricity'' \<and>
   get_data_for_period iso_to_datetime (Some sample) ''2024-12-05'' ''2024-12-01''
       ''electricity''
     = get_data_for_period iso_to_datetime (Some sample) ''2025-01-01'' ''2025-01-02''
         ''electricity''"
  by code_simp

section \<open>Average\<close>

text \<open>
  On a normalized table, for an accepted range and a resolved column, the average is
  nothing when no row is in range and otherwise the mean of the column over the rows in
  range: the sum of the present values over their number when there is one, NaN when
  there is none.
\<close>

lemma get_average_normalized:
  assumes "normalized t"
      and "validate_date_range to_datetime start_date end_date = Inr (a, b)"
      and "resolve_column t kind = Inr col"
      and "col_index (columns t) col = Some j"
  shows "get_average to_datetime (Some t) start_date end_date kind =
           (if rows_in_range t a b = [] then None
            else Some (mean (map (\<lambda>r. get_cell r j) (rows_in_range t a b))))"
  using assms by (simp add: get_average_def filter_normalized)

lemma mean_values:
  assumes "values_of cs \<noteq> []"
  shows "mean cs = Num (sum_list (values_of cs) / real (length (values_of cs)))"
  using assms by (cases "values_of cs") (simp_all add: mean_def)

lemma mean_no_values: "values_of cs = [] \<Longrightarrow> mean cs = NaN"
  by (simp add: mean_def)

text \<open>
  C4. When the rows in range are all missing in the resolved column, the mean of the
  library is NaN and \<open>get_average\<close> returns it as a value, where the claim (and the
  function's own description, ``average value or None if no data'') asks for nothing.
\<close>

theorem average_of_missing_values_is_nan:
  "get_average iso_to_datetime
     (Some \<lparr>columns = [''date'', ''electricity_consumption''],
            rows = [[Date (day 20058), NaN]]\<rparr>)
     ''2024-12-01'' ''2024-12-01'' ''electricity'' = Some NaN"
  by code_simp

section \<open>Properties of loading\<close>

lemma normalize_frame_Inr:
  assumes "normalize_frame lib df date_col elec_col gas_col = Inr t"
  obtains dates where
    "date_stamps lib (column_cells df date_col) = Some dates"
    "columns t = map (column_mapping date_col elec_col gas_col)
                   (columns_to_keep df date_col elec_col gas_col)"
    "rows t = map (normalize_row lib df (tl (columns_to_keep df date_col elec_col gas_col)))
                (filter (keep_row df) (zip (df_rows df) dates))"
    "''date'' \<in> set (columns t)"
    "distinct (tl (columns t))"
    "2 \<le> length (columns_to_keep df date_col elec_col gas_col)"
proof (cases "date_stamps lib (column_cells df date_col)")
  case None
  with assms show ?thesis
    by (simp add: normalize_frame_def Let_def split: if_splits)
next
  case (Some dates)
  with assms that [of dates] show ?thesis
    by (simp add: normalize_frame_def Let_def split: if_splits) force
qed

lemma load_csv_Inr:
  assumes "load_csv lib df = Inr t"
  obtains date_col where
    "find_date_col lib df = Some date_col"
    "normalize_frame lib df date_col
       (fst (consumption_columns df)) (snd (consumption_columns df)) = Inr t"
  using assms by (simp add: load_csv_def split: if_splits option.splits)

lemma mapping_date:
  assumes "column_mapping date_col elec_col gas_col c = ''date''"
      and "c \<in> set ([date_col] @ if_truthy elec_col @ if_truthy gas_col)"
  shows "c = date_col \<and> date_col \<notin> set (if_truthy elec_col) \<and> date_col \<notin> set (if_truthy gas_col)"
  using assms by (auto simp: column_mapping_def split: if_splits)

lemma mapping_consumption:
  assumes "c \<in> set (if_truthy elec_col @ if_truthy gas_col)"
  shows "column_mapping date_col elec_col gas_col c \<noteq> ''date''"
  using assms by (auto simp: column_mapping_def)

lemma keep_shape:
  assumes "''date'' \<in> set (map (column_mapping date_col elec_col gas_col)
                            (columns_to_keep df date_col elec_col gas_col))"
  shows "columns_to_keep df date_col elec_col gas_col =
           date_col # filter (\<lambda>col. col \<in> set (df_columns df))
                        (if_truthy elec_col @ if_truthy gas_col)"
    and "column_mapping date_col elec_col gas_col date_col = ''date''"
proof -
  let ?all = "[date_col] @ if_truthy elec_col @ if_truthy gas_col"
  from assms obtain c where c: "c \<in> set (columns_to_keep df date_col elec_col gas_col)"
    "column_mapping date_col elec_col gas_col c = ''date''"
    by auto
  from c(1) have m: "c \<in> set ?all" "c \<in> set (df_columns df)"
    by (simp_all add: columns_to_keep_def del: filter.simps filter_append)
  from mapping_date [OF c(2) m(1)] have e: "c = date_col" by simp
  with m(2) show "columns_to_keep df date_col elec_col gas_col =
           date_col # filter (\<lambda>col. col \<in> set (df_columns df))
                        (if_truthy elec_col @ if_truthy gas_col)"
    by (simp add: columns_to_keep_def)
  from c(2) e show "column_mapping date_col elec_col gas_col date_col = ''date''" by simp
qed

lemma numeric_cell_float: "is_float (numeric_cell lib x)"
  by (simp add: numeric_cell_def split: option.splits)

lemma kept_row_shape:
  assumes "keep_row df p"
  shows "is_time (hd (normalize_row lib df cols p))"
    and "list_all is_float (tl (normalize_row lib df cols p))"
    and "length (normalize_row lib df cols p) = Suc (length cols)"
proof -
  from assms obtain n where "snd p = TS n"
    by (cases "snd p") (auto simp: keep_row_def)
  then show "is_time (hd (normalize_row lib df cols p))"
    by (simp add: normalize_row_def)
  show "list_all is_float (tl (normalize_row lib df cols p))"
    by (simp add: normalize_row_def list_all_iff numeric_cell_float)
  show "length (normalize_row lib df cols p) = Suc (length cols)"
    by (simp add: normalize_row_def)
qed

lemma normalize_frame_normalized:
  assumes "normalize_frame lib df date_col elec_col gas_col = Inr t"
  shows "normalized t"
proof -
  from assms obtain dates where
    c: "columns t = map (column_mapping date_col elec_col gas_col)
                   (columns_to_keep df date_col elec_col gas_col)"
    and r: "rows t = map (normalize_row lib df (tl (columns_to_keep df date_col elec_col gas_col)))
                (filter (keep_row df) (zip (df_rows df) dates))"
    and d: "''date'' \<in> set (columns t)"
    and u: "distinct (tl (columns t))"
    by (rule normalize_frame_Inr)
  let ?keep = "columns_to_keep df date_col elec_col gas_col"
  let ?rest = "filter (\<lambda>col. col \<in> set (df_columns df)) (if_truthy elec_col @ if_truthy gas_col)"
  let ?f = "column_mapping date_col elec_col gas_col"
  from d have d': "''date'' \<in> set (map ?f ?keep)" by (simp only: c)
  have k: "?keep = date_col # ?rest" using d' by (rule keep_shape(1))
  have m: "?f date_col = ''date''" using d' by (rule keep_shape(2))
  have cols: "columns t = ''date'' # map ?f ?rest"
    using c k m by simp
  have nd: "''date'' \<notin> set (map ?f ?rest)"
  proof
    assume "''date'' \<in> set (map ?f ?rest)"
    then obtain x where x: "''date'' = ?f x" "x \<in> set ?rest"
      unfolding set_map by (rule imageE)
    from x(2) have "x \<in> set (if_truthy elec_col @ if_truthy gas_col)" by auto
    then have "?f x \<noteq> ''date''" by (rule mapping_consumption)
    with x(1) show False by simp
  qed
  have dist: "distinct (map ?f ?rest)" using u cols by simp
  have len: "length (columns t) = Suc (length ?rest)" using cols by simp
  have tlk: "tl ?keep = ?rest" using k by simp
  have "\<forall>x\<in>set (rows t). length x = length (columns t) \<and> is_time (hd x) \<and>
          list_all is_float (tl x)"
  proof
    fix x
    assume "x \<in> set (rows t)"
    then obtain p where p: "keep_row df p" "x = normalize_row lib df ?rest p"
      unfolding r tlk by auto
    from kept_row_shape [OF p(1), of lib ?rest] p(2) len
    show "length x = length (columns t) \<and> is_time (hd x) \<and> list_all is_float (tl x)"
      by simp
  qed
  then have rows_ok: "list_all (\<lambda>r. length r = length (columns t) \<and> is_time (hd r) \<and>
                     list_all is_float (tl r)) (rows t)"
    by (simp add: list_all_iff)
  show ?thesis
    using cols nd dist rows_ok by (simp add: normalized_def)
qed

lemma load_csv_normalized:
  assumes "load_csv lib df = Inr t"
  shows "normalized t"
proof -
  from assms obtain date_col where
    "normalize_frame lib df date_col
       (fst (consumption_columns df)) (snd (consumption_columns df)) = Inr t"
    by (rule load_csv_Inr)
  then show ?thesis by (rule normalize_frame_normalized)
qed

lemma consumption_columns_fallback:
  assumes "first_match name_has_ci elec_patterns (df_columns df) = None"
      and "first_match name_has_ci gas_patterns (df_columns df) = None"
  shows "consumption_columns df =
           (case numeric_cols df of
              [] \<Rightarrow> (None, None)
            | [a] \<Rightarrow> (Some a, None)
            | a # b # _ \<Rightarrow> (Some a, Some b))"
  using assms by (simp add: consumption_columns_def)

text \<open>
  C8. On a frame with the number-typed columns \<open>date\<close> and \<open>value\<close>, where no name
  matches an electricity or gas pattern, the candidates of the source are all the
  number-typed columns, the date column included: the date column is assigned to
  electricity and \<open>value\<close> to gas, where the claim assigns \<open>value\<close> to electricity
  and nothing to gas. The renaming then leaves no column named \<open>date\<close> and the load
  fails.
\<close>

theorem numeric_fallback_takes_date_column:
  "first_match name_has_ci elec_patterns (df_columns numeric_date_sample) = None \<and>
   first_match name_has_ci gas_patterns (df_columns numeric_date_sample) = None \<and>
   find_date_col iso_pandas numeric_date_sample = Some ''date'' \<and>
   consumption_columns numeric_date_sample = (Some ''date'', Some ''value'') \<and>
   spec_numeric_fallback numeric_date_sample ''date'' = (Some ''value'', None) \<and>
   load_csv iso_pandas numeric_date_sample = Inl InvalidFileFormat"
  by code_simp

lemma keep_row_flagged: "keep_row df (r, d) \<longleftrightarrow> d \<noteq> NaT \<and> \<not> flagged df r"
  by (auto simp: keep_row_def flagged_def)

lemma kept_rows_count:
  assumes "length dates = length rs"
  shows "length (filter (keep_row df) (zip rs dates)) =
           card {i. i < length rs \<and> dates ! i \<noteq> NaT \<and> \<not> flagged df (rs ! i)}"
proof -
  have "{i. i < length (zip rs dates) \<and> keep_row df (zip rs dates ! i)} =
        {i. i < length rs \<and> dates ! i \<noteq> NaT \<and> \<not> flagged df (rs ! i)}"
    using assms by (auto simp: keep_row_flagged)
  then show ?thesis by (simp add: length_filter_conv_card)
qed

lemma kept_row_member:
  assumes "length dates = length rs" "i < length rs" "dates ! i \<noteq> NaT" "\<not> flagged df (rs ! i)"
  shows "(rs ! i, dates ! i) \<in> set (filter (keep_row df) (zip rs dates))"
proof -
  have "(rs ! i, dates ! i) = zip rs dates ! i" using assms(1,2) by simp
  moreover have "i < length (zip rs dates)" using assms(1,2) by simp
  ultimately have "(rs ! i, dates ! i) \<in> set (zip rs dates)" by (metis nth_mem)
  then show ?thesis using assms(3,4) by (simp add: keep_row_flagged)
qed

lemma load_csv_rows:
  assumes "load_csv lib df = Inr t"
      and "find_date_col lib df = Some date_col"
      and "date_stamps lib (column_cells df date_col) = Some dates"
  shows "rows t = map (normalize_row lib df
                         (tl (columns_to_keep df date_col (fst (consumption_columns df))
                                (snd (consumption_columns df)))))
                    (filter (keep_row df) (zip (df_rows df) dates))"
proof -
  from assms(1) obtain dc where dc: "find_date_col lib df = Some dc"
    "normalize_frame lib df dc (fst (consumption_columns df)) (snd (consumption_columns df))
       = Inr t"
    by (rule load_csv_Inr)
  from dc(1) assms(2) have e: "dc = date_col" by simp
  from dc(2) obtain ds where ds: "date_stamps lib (column_cells df dc) = Some ds"
    "rows t = map (normalize_row lib df
                     (tl (columns_to_keep df dc (fst (consumption_columns df))
                            (snd (consumption_columns df)))))
                (filter (keep_row df) (zip (df_rows df) ds))"
    by (rule normalize_frame_Inr)
  from ds(1) assms(3) e have "ds = dates" by simp
  with ds(2) e show ?thesis by simp
qed

text \<open>
  C9. When the load succeeds, every row of the table has a time as its date; the table
  has one row for each raw row whose parsed date (strict parse of the column, lenient
  parse when the strict one raises) is not NaT and that is not marked to be ignored;
  each such raw row is present with its consumption cells coerced one by one, whatever
  the coercion gives; and a cell that fails the coercion becomes NaN.
\<close>

theorem load_keeps_dated_rows:
  assumes "load_csv lib df = Inr t"
      and "find_date_col lib df = Some date_col"
      and "date_stamps lib (column_cells df date_col) = Some dates"
      and "length dates = length (df_rows df)"
  shows "list_all (\<lambda>r. is_time (hd r)) (rows t) \<and>
         length (rows t) =
           card {i. i < length (df_rows df) \<and> dates ! i \<noteq> NaT \<and>
                    \<not> flagged df (df_rows df ! i)} \<and>
         (\<forall>i<length (df_rows df).
            dates ! i \<noteq> NaT \<and> \<not> flagged df (df_rows df ! i) \<longrightarrow>
            Date (dates ! i) #
              map (\<lambda>c. numeric_cell lib (raw_cell df c (df_rows df ! i)))
                (tl (columns_to_keep df date_col (fst (consumption_columns df))
                       (snd (consumption_columns df))))
              \<in> set (rows t)) \<and>
         (\<forall>x. to_numeric lib x = None \<longrightarrow> numeric_cell lib x = NaN)"
proof -
  let ?cols = "tl (columns_to_keep df date_col (fst (consumption_columns df))
                     (snd (consumption_columns df)))"
  let ?kept = "filter (keep_row df) (zip (df_rows df) dates)"
  have r: "rows t = map (normalize_row lib df ?cols) ?kept"
    using assms(1-3) by (rule load_csv_rows)
  have n: "normalized t" using assms(1) by (rule load_csv_normalized)
  have a: "list_all (\<lambda>r. is_time (hd r)) (rows t)"
    using n by (auto simp: normalized_def list_all_iff)
  have b: "length (rows t) =
           card {i. i < length (df_rows df) \<and> dates ! i \<noteq> NaT \<and>
                    \<not> flagged df (df_rows df ! i)}"
    using kept_rows_count [OF assms(4), of df] by (simp add: r)
  have c: "\<forall>i<length (df_rows df).
            dates ! i \<noteq> NaT \<and> \<not> flagged df (df_rows df ! i) \<longrightarrow>
            Date (dates ! i) #
              map (\<lambda>c. numeric_cell lib (raw_cell df c (df_rows df ! i))) ?cols
              \<in> set (rows t)"
  proof (intro allI impI)
    fix i
    assume i: "i < length (df_rows df)"
      and k: "dates ! i \<noteq> NaT \<and> \<not> flagged df (df_rows df ! i)"
    from k have k1: "dates ! i \<noteq> NaT" and k2: "\<not> flagged df (df_rows df ! i)"
      by simp_all
    have "(df_rows df ! i, dates ! i) \<in> set ?kept"
      using assms(4) i k1 k2 by (rule kept_row_member)
    then have "normalize_row lib df ?cols (df_rows df ! i, dates ! i) \<in> set (rows t)"
      unfolding r set_map by (rule imageI)
    then show "Date (dates ! i) #
              map (\<lambda>c. numeric_cell lib (raw_cell df c (df_rows df ! i))) ?cols
              \<in> set (rows t)"
      by (simp add: normalize_row_def)
  qed
  have d: "\<forall>x. to_numeric lib x = None \<longrightarrow> numeric_cell lib x = NaN"
    by (simp add: numeric_cell_def)
  from a b c d show ?thesis by blast
qed

theorem load_keeps_dated_rows_witness:
  "load_csv iso_pandas raw_sample = Inr sample \<and>
   find_date_col iso_pandas raw_sample = Some ''Date'' \<and>
   date_stamps iso_pandas (column_cells raw_sample ''Date'')
     = Some [day 20058, day 20059, NaT, day 20060, day 20067] \<and>
   list_all (\<lambda>r. is_time (hd r)) (rows sample) \<and>
   length (rows sample) = 4 \<and>
   card {i. i < length (df_rows raw_sample) \<and>
            [day 20058, day 20059, NaT, day 20060, day 20067] ! i \<noteq> NaT \<and>
            \<not> flagged raw_sample (df_rows raw_sample ! i)} = 4 \<and>
   [Date (day 20067), NaN, Num 4] \<in> set (rows sample)"
proof -
  let ?dates = "[day 20058, day 20059, NaT, day 20060, day 20067]"
  have l: "load_csv iso_pandas raw_sample = Inr sample" by code_simp
  have f: "find_date_col iso_pandas raw_sample = Some ''Date''" by code_simp
  have s: "date_stamps iso_pandas (column_cells raw_sample ''Date'') = Some ?dates"
    by code_simp
  have n: "length ?dates = length (df_rows raw_sample)" by code_simp
  have r: "length (rows sample) = 4" by code_simp
  have m: "[Date (day 20067), NaN, Num 4] \<in> set (rows sample)" by code_simp
  from load_keeps_dated_rows [OF l f s n] l f s r m show ?thesis by simp
qed

lemma idxmin_member: "idxmin j rs = Some r \<Longrightarrow> r \<in> set rs"
  by (drule idxmin_Some) auto

lemma idxmax_member: "idxmax j rs = Some r \<Longrightarrow> r \<in> set rs"
  by (drule idxmax_Some) auto

lemma in_range_row_date:
  assumes "normalized t" "r \<in> set (rows_in_range t a b)"
  shows "r \<in> set (rows t)" "get_cell r 0 = hd r" "is_time (hd r)"
proof -
  show m: "r \<in> set (rows t)" using assms(2) rows_in_range_subset by blast
  show "get_cell r 0 = hd r"
    using assms(1) m by (simp add: get_cell_0 normalized_row_nonempty)
  show "is_time (hd r)" using assms(1) m by (rule normalized_row)
qed

lemma get_minimum_Some:
  assumes "normalized t"
      and "get_minimum to_datetime (Some t) start_date end_date kind = Some (v, d)"
  shows "\<exists>r\<in>set (rows t). d = hd r \<and> is_time d"
proof (cases "validate_date_range to_datetime start_date end_date")
  case (Inl err)
  with assms(2) show ?thesis by (simp add: get_minimum_def)
next
  case (Inr range)
  obtain a b where ab: "range = (a, b)" by (cases range)
  show ?thesis
  proof (cases "resolve_column t kind")
    case (Inl err)
    then have "filter_data_by_date (Some t) a b kind = Inl err"
      by (simp add: filter_data_by_date_def)
    with assms(2) Inr ab show ?thesis by (simp add: get_minimum_def)
  next
    case (Inr col)
    with assms(1) obtain j where j: "col_index (columns t) col = Some j"
      by (auto elim: normalized_value_index)
    have v: "validate_date_range to_datetime start_date end_date = Inr (a, b)"
      using \<open>validate_date_range to_datetime start_date end_date = Inr range\<close> ab by simp
    from assms(2) get_minimum_normalized [OF assms(1) v Inr j]
    obtain r where r: "idxmin j (rows_in_range t a b) = Some r" "d = get_cell r 0"
      by (auto split: option.splits)
    from r(1) have "r \<in> set (rows_in_range t a b)" by (rule idxmin_member)
    with assms(1) have "r \<in> set (rows t)" "get_cell r 0 = hd r" "is_time (hd r)"
      by (rule in_range_row_date)+
    with r(2) show ?thesis by auto
  qed
qed

lemma get_maximum_Some:
  assumes "normalized t"
      and "get_maximum to_datetime (Some t) start_date end_date kind = Some (v, d)"
  shows "\<exists>r\<in>set (rows t). d = hd r \<and> is_time d"
proof (cases "validate_date_range to_datetime start_date end_date")
  case (Inl err)
  with assms(2) show ?thesis by (simp add: get_maximum_def)
next
  case (Inr range)
  obtain a b where ab: "range = (a, b)" by (cases range)
  show ?thesis
  proof (cases "resolve_column t kind")
    case (Inl err)
    then have "filter_data_by_date (Some t) a b kind = Inl err"
      by (simp add: filter_data_by_date_def)
    with assms(2) Inr ab show ?thesis by (simp add: get_maximum_def)
  next
    case (Inr col)
    with assms(1) obtain j where j: "col_index (columns t) col = Some j"
      by (auto elim: normalized_value_index)
    have v: "validate_date_range to_datetime start_date end_date = Inr (a, b)"
      using \<open>validate_date_range to_datetime start_date end_date = Inr range\<close> ab by simp
    from assms(2) get_maximum_normalized [OF assms(1) v Inr j]
    obtain r where r: "idxmax j (rows_in_range t a b) = Some r" "d = get_cell r 0"
      by (auto split: option.splits)
    from r(1) have "r \<in> set (rows_in_range t a b)" by (rule idxmax_member)
    with assms(1) have "r \<in> set (rows t)" "get_cell r 0 = hd r" "is_time (hd r)"
      by (rule in_range_row_date)+
    with r(2) show ?thesis by auto
  qed
qed

lemma subtable_dates:
  assumes "normalized t"
  shows "hd (columns (subtable c j (rows_in_range t a b))) = ''date'' \<and>
         (\<forall>q\<in>set (rows (subtable c j (rows_in_range t a b))).
            \<exists>r\<in>set (rows t). hd q = hd r \<and> is_time (hd q))"
proof -
  have "\<And>r. r \<in> set (rows_in_range t a b) \<Longrightarrow> r \<in> set (rows t) \<and> is_time (hd r)"
    using assms by (simp add: in_range_row_date)
  then show ?thesis by (auto simp: subtable_def)
qed

lemma get_data_for_period_Some:
  assumes "normalized t"
      and "get_data_for_period to_datetime (Some t) start_date end_date kind = Some sub"
  shows "hd (columns sub) = ''date'' \<and>
         (\<forall>q\<in>set (rows sub). \<exists>r\<in>set (rows t). hd q = hd r \<and> is_time (hd q))"
proof (cases "validate_date_range to_datetime start_date end_date")
  case (Inl err)
  with assms(2) show ?thesis by (simp add: get_data_for_period_def)
next
  case (Inr range)
  obtain a b where ab: "range = (a, b)" by (cases range)
  show ?thesis
  proof (cases "resolve_column t kind")
    case (Inl err)
    then have "filter_data_by_date (Some t) a b kind = Inl err"
      by (simp add: filter_data_by_date_def)
    with assms(2) Inr ab show ?thesis by (simp add: get_data_for_period_def)
  next
    case (Inr col)
    with assms(1) obtain j where j: "col_index (columns t) col = Some j"
      by (auto elim: normalized_value_index)
    have v: "validate_date_range to_datetime start_date end_date = Inr (a, b)"
      using \<open>validate_date_range to_datetime start_date end_date = Inr range\<close> ab by simp
    from assms(2) get_data_for_period_normalized [OF assms(1) v Inr j]
    obtain c i where "sub = subtable c i (rows_in_range t a b)"
      by (auto split: if_splits sum.splits option.splits)
    with subtable_dates [OF assms(1), of c i a b] show ?thesis by simp
  qed
qed

text \<open>
  C10. In every table that a load produces the first column is the date column: it is
  named \<open>date\<close>, no other column has that name, and it holds times. The date that
  \<open>get_minimum\<close> and \<open>get_maximum\<close> return, and the first column of the table that
  \<open>get_data_for_period\<close> returns, are read from the first column of the table, so on
  a loaded table they are the dates of its rows.
\<close>

theorem load_puts_date_first:
  assumes "load_csv lib df = Inr t"
  shows "normalized t \<and> hd (columns t) = ''date'' \<and>
         col_index (columns t) ''date'' = Some 0 \<and>
         (\<forall>v d. get_minimum to_datetime (Some t) start_date end_date kind = Some (v, d) \<longrightarrow>
                (\<exists>r\<in>set (rows t). d = hd r \<and> is_time d)) \<and>
         (\<forall>v d. get_maximum to_datetime (Some t) start_date end_date kind = Some (v, d) \<longrightarrow>
                (\<exists>r\<in>set (rows t). d = hd r \<and> is_time d)) \<and>
         (\<forall>sub. get_data_for_period to_datetime (Some t) start_date end_date kind = Some sub \<longrightarrow>
                hd (columns sub) = ''date'' \<and>
                (\<forall>q\<in>set (rows sub). \<exists>r\<in>set (rows t). hd q = hd r \<and> is_time (hd q)))"
proof -
  have n: "normalized t" using assms by (rule load_csv_normalized)
  have h: "hd (columns t) = ''date''" using n by (auto elim: normalized_columns)
  have i: "col_index (columns t) ''date'' = Some 0" using n by (rule normalized_date_index)
  from n h i get_minimum_Some [OF n] get_maximum_Some [OF n] get_data_for_period_Some [OF n]
  show ?thesis by blast
qed

theorem load_puts_date_first_witness:
  "load_csv iso_pandas raw_sample = Inr sample \<and>
   normalized sample \<and> hd (columns sample) = ''date'' \<and>
   get_minimum iso_to_datetime (Some sample) ''2024-12-01'' ''2024-12-03'' ''electricity''
     = Some (Num 5, Date (day 20059)) \<and>
   (\<exists>r\<in>set (rows sample). Date (day 20059) = hd r \<and> is_time (Date (day 20059)))"
proof -
  have l: "load_csv iso_pandas raw_sample = Inr sample" by code_simp
  have m: "get_minimum iso_to_datetime (Some sample) ''2024-12-01'' ''2024-12-03''
             ''electricity'' = Some (Num 5, Date (day 20059))" by code_simp
  from load_puts_date_first [OF l, of iso_to_datetime "''2024-12-01''" "''2024-12-03''"
      "''electricity''"] l m
  show ?thesis by simp
qed

text \<open>
  Without the invariant the result is not a date: on a table whose first column holds the
  values, the ``date'' of the minimum is the value itself.
\<close>

lemma minimum_reads_first_column:
  "get_minimum iso_to_datetime (Some swapped_sample) ''2024-12-01'' ''2024-12-02''
     ''electricity'' = Some (Num 5, Num 5)"
  by code_simp

end
